theory Spec2Isabelle
  imports Complex_Main "HOL-Library.AList" "HOL-Library.Sublist"
begin

section \<open>Errors\<close>

text \<open>
  A thrown JavaScript exception is a value: \<open>Error msg\<close> for \<^verbatim>\<open>throw new Error(msg)\<close>,
  \<open>TypeError\<close> for the runtime's own error on a property read of \<^verbatim>\<open>undefined\<close> or
  \<^verbatim>\<open>null\<close> (or a call of something that is no function), \<open>ZodError\<close> for a failed
  schema parse, \<open>IOError\<close> for a rejected file-system call.
\<close>

datatype error = Error string | TypeError | ZodError string | IOError

section \<open>Module lifecycle (core/lifecycle/ModuleLifecycle.ts)\<close>

datatype LifecycleState =
  CREATED | INITIALIZING | INITIALIZED | ACTIVATING | ACTIVE
  | DEACTIVATING | DEACTIVATED | DESTROYING | DESTROYED | ERROR

text \<open>The string value of each enum member, as the error messages print it.\<close>

fun state_str :: "LifecycleState \<Rightarrow> string" where
  "state_str CREATED = ''created''"
| "state_str INITIALIZING = ''initializing''"
| "state_str INITIALIZED = ''initialized''"
| "state_str ACTIVATING = ''activating''"
| "state_str ACTIVE = ''active''"
| "state_str DEACTIVATING = ''deactivating''"
| "state_str DEACTIVATED = ''deactivated''"
| "state_str DESTROYING = ''destroying''"
| "state_str DESTROYED = ''destroyed''"
| "state_str ERROR = ''error''"

record ModuleLifecycle =
  state :: LifecycleState
  moduleName :: string

definition new_ModuleLifecycle :: "string \<Rightarrow> ModuleLifecycle" where
  "new_ModuleLifecycle n = \<lparr>state = CREATED, moduleName = n\<rparr>"

definition canInitialize :: "ModuleLifecycle \<Rightarrow> bool" where
  "canInitialize l = (state l = CREATED)"

definition canActivate :: "ModuleLifecycle \<Rightarrow> bool" where
  "canActivate l = (state l = INITIALIZED \<or> state l = DEACTIVATED)"

definition canDeactivate :: "ModuleLifecycle \<Rightarrow> bool" where
  "canDeactivate l = (state l = ACTIVE \<or> state l = ACTIVATING)"

definition canDestroy :: "ModuleLifecycle \<Rightarrow> bool" where
  "canDestroy l =
     (state l = CREATED \<or> state l = INITIALIZED \<or> state l = DEACTIVATED \<or> state l = ERROR)"

text \<open>
  Each \<open>mark\<close> method returns the exception it throws (if any) together with the object
  after the call: a throwing call returns before the assignment to \<open>this.state\<close>.
\<close>

definition markInitializing :: "ModuleLifecycle \<Rightarrow> error option \<times> ModuleLifecycle" where
  "markInitializing l =
     (if \<not> canInitialize l
      then (Some (Error (''Cannot initialize module '' @ moduleName l @ '' in state ''
                          @ state_str (state l))), l)
      else (None, l\<lparr>state := INITIALIZING\<rparr>))"

definition markInitialized :: "ModuleLifecycle \<Rightarrow> error option \<times> ModuleLifecycle" where
  "markInitialized l =
     (if state l \<noteq> INITIALIZING
      then (Some (Error (''Cannot mark as initialized in state '' @ state_str (state l))), l)
      else (None, l\<lparr>state := INITIALIZED\<rparr>))"

definition markActivating :: "ModuleLifecycle \<Rightarrow> error option \<times> ModuleLifecycle" where
  "markActivating l =
     (if \<not> canActivate l
      then (Some (Error (''Cannot activate module '' @ moduleName l @ '' in state ''
                          @ state_str (state l))), l)
      else (None, l\<lparr>state := ACTIVATING\<rparr>))"

definition markActive :: "ModuleLifecycle \<Rightarrow> error option \<times> ModuleLifecycle" where
  "markActive l =
     (if state l \<noteq> ACTIVATING
      then (Some (Error (''Cannot mark as active in state '' @ state_str (state l))), l)
      else (None, l\<lparr>state := ACTIVE\<rparr>))"

definition markDeactivating :: "ModuleLifecycle \<Rightarrow> error option \<times> ModuleLifecycle" where
  "markDeactivating l =
     (if \<not> canDeactivate l
      then (Some (Error (''Cannot deactivate module '' @ moduleName l @ '' in state ''
                          @ state_str (state l))), l)
      else (None, l\<lparr>state := DEACTIVATING\<rparr>))"

definition markDeactivated :: "ModuleLifecycle \<Rightarrow> error option \<times> ModuleLifecycle" where
  "markDeactivated l =
     (if state l \<noteq> DEACTIVATING
      then (Some (Error (''Cannot mark as deactivated in state '' @ state_str (state l))), l)
      else (None, l\<lparr>state := DEACTIVATED\<rparr>))"

definition markDestroying :: "ModuleLifecycle \<Rightarrow> error option \<times> ModuleLifecycle" where
  "markDestroying l =
     (if \<not> canDestroy l
      then (Some (Error (''Cannot destroy module '' @ moduleName l @ '' in state ''
                          @ state_str (state l))), l)
      else (None, l\<lparr>state := DESTROYING\<rparr>))"

definition markDestroyed :: "ModuleLifecycle \<Rightarrow> error option \<times> ModuleLifecycle" where
  "markDestroyed l =
     (if state l \<noteq> DESTROYING
      then (Some (Error (''Cannot mark as destroyed in state '' @ state_str (state l))), l)
      else (None, l\<lparr>state := DESTROYED\<rparr>))"

definition markError :: "ModuleLifecycle \<Rightarrow> error option \<times> ModuleLifecycle" where
  "markError l = (None, l\<lparr>state := ERROR\<rparr>)"

text \<open>The eight guarded transition methods, by name, and the state each one assigns.\<close>

datatype transition =
  MarkInitializing | MarkInitialized | MarkActivating | MarkActive
  | MarkDeactivating | MarkDeactivated | MarkDestroying | MarkDestroyed

fun mark :: "transition \<Rightarrow> ModuleLifecycle \<Rightarrow> error option \<times> ModuleLifecycle" where
  "mark MarkInitializing = markInitializing"
| "mark MarkInitialized = markInitialized"
| "mark MarkActivating = markActivating"
| "mark MarkActive = markActive"
| "mark MarkDeactivating = markDeactivating"
| "mark MarkDeactivated = markDeactivated"
| "mark MarkDestroying = markDestroying"
| "mark MarkDestroyed = markDestroyed"

fun target :: "transition \<Rightarrow> LifecycleState" where
  "target MarkInitializing = INITIALIZING"
| "target MarkInitialized = INITIALIZED"
| "target MarkActivating = ACTIVATING"
| "target MarkActive = ACTIVE"
| "target MarkDeactivating = DEACTIVATING"
| "target MarkDeactivated = DEACTIVATED"
| "target MarkDestroying = DESTROYING"
| "target MarkDestroyed = DESTROYED"

text \<open>The states in which each method's guard lets the call through.\<close>

fun permitted_from :: "transition \<Rightarrow> LifecycleState list" where
  "permitted_from MarkInitializing = [CREATED]"
| "permitted_from MarkInitialized = [INITIALIZING]"
| "permitted_from MarkActivating = [INITIALIZED, DEACTIVATED]"
| "permitted_from MarkActive = [ACTIVATING]"
| "permitted_from MarkDeactivating = [ACTIVE, ACTIVATING]"
| "permitted_from MarkDeactivated = [DEACTIVATING]"
| "permitted_from MarkDestroying = [CREATED, INITIALIZED, DEACTIVATED, ERROR]"
| "permitted_from MarkDestroyed = [DESTROYING]"

definition is_state_mismatch :: "error option \<Rightarrow> LifecycleState \<Rightarrow> bool" where
  "is_state_mismatch r s =
     (case r of Some (Error msg) \<Rightarrow> suffix ('' in state '' @ state_str s) msg | _ \<Rightarrow> False)"

section \<open>JavaScript values and strings\<close>

text \<open>
  An untyped JavaScript value, as the YAML parser and the object spreads of the
  configuration code produce them. An object is the list of its own properties in
  insertion order; a number is \<open>JNaN\<close> or an exact real.
\<close>

datatype jv =
  JUndef | JNull | JBool bool | JNum real | JNaN | JStr string
  | JArr "jv list" | JObj "(string \<times> jv) list"

text \<open>\<^verbatim>\<open>startsWith\<close>, \<^verbatim>\<open>endsWith\<close>, \<^verbatim>\<open>includes\<close> (here \<open>includesStr\<close>) and \<^verbatim>\<open>split\<close> of \<^verbatim>\<open>String.prototype\<close>.\<close>

definition startsWith :: "string \<Rightarrow> string \<Rightarrow> bool" where
  "startsWith s p = prefix p s"

definition endsWith :: "string \<Rightarrow> string \<Rightarrow> bool" where
  "endsWith s p = suffix p s"

fun includesStr :: "string \<Rightarrow> string \<Rightarrow> bool" where
  "includesStr [] sub = (sub = [])"
| "includesStr (c # s) sub = (prefix sub (c # s) \<or> includesStr s sub)"

fun split_on :: "char \<Rightarrow> string \<Rightarrow> string list" where
  "split_on d [] = [[]]"
| "split_on d (c # s) =
     (if c = d then [] # split_on d s
      else (case split_on d s of h # t \<Rightarrow> (c # h) # t | [] \<Rightarrow> [[c]]))"

text \<open>\<^verbatim>\<open>Array.prototype.join\<close> on strings.\<close>

fun join_str :: "string \<Rightarrow> string list \<Rightarrow> string" where
  "join_str sep [] = []"
| "join_str sep [x] = x"
| "join_str sep (x # y # ys) = x @ sep @ join_str sep (y # ys)"

text \<open>
  \<open>absent_or_empty\<close> is the falsiness of an optional string: \<^verbatim>\<open>undefined\<close> and \<^verbatim>\<open>''\<close>
  are falsy, every other string is truthy.
\<close>

definition absent_or_empty :: "string option \<Rightarrow> bool" where
  "absent_or_empty x = (case x of None \<Rightarrow> True | Some s \<Rightarrow> s = [])"

text \<open>
  A value that is a boolean or \<^verbatim>\<open>undefined\<close> is a \<open>bool option\<close>, \<open>None\<close> for
  \<^verbatim>\<open>undefined\<close>. \<open>land a b\<close> is \<^verbatim>\<open>a && b\<close>: the left operand when it is falsy, the right
  one otherwise.
\<close>

definition truthy_b :: "bool option \<Rightarrow> bool" where
  "truthy_b a = (a = Some True)"

definition land :: "bool option \<Rightarrow> bool option \<Rightarrow> bool option" where
  "land a b = (if truthy_b a then b else a)"

text \<open>
  A \<^verbatim>\<open>Map\<close> is an association list handled through \<open>map_of\<close>, \<open>AList.update\<close>
  (\<^verbatim>\<open>set\<close>: a present key keeps its place) and \<open>AList.delete\<close>; a \<^verbatim>\<open>Set\<close> is a list
  in insertion order, \<open>set_add\<close> being \<^verbatim>\<open>add\<close>.
\<close>

definition set_add :: "'a \<Rightarrow> 'a list \<Rightarrow> 'a list" where
  "set_add x xs = (if x \<in> set xs then xs else xs @ [x])"

text \<open>Truthiness, \<^verbatim>\<open>a || b\<close> and \<^verbatim>\<open>a ?? b\<close>.\<close>

fun truthy :: "jv \<Rightarrow> bool" where
  "truthy JUndef = False"
| "truthy JNull = False"
| "truthy (JBool b) = b"
| "truthy (JNum r) = (r \<noteq> 0)"
| "truthy JNaN = False"
| "truthy (JStr s) = (s \<noteq> [])"
| "truthy (JArr _) = True"
| "truthy (JObj _) = True"

definition js_or :: "jv \<Rightarrow> jv \<Rightarrow> jv" where
  "js_or a b = (if truthy a then a else b)"

definition nullish :: "jv \<Rightarrow> jv \<Rightarrow> jv" where
  "nullish a b = (if a = JUndef \<or> a = JNull then b else a)"

text \<open>
  The decimal numeral of an integer, which is what a template literal makes of an
  integral number.
\<close>

definition digit_char :: "int \<Rightarrow> char" where
  "digit_char d = char_of (48 + d)"

function show_dec :: "int \<Rightarrow> string" where
  "show_dec n =
     (if n < 0 then CHR ''-'' # show_dec (- n)
      else if n < 10 then [digit_char n]
      else show_dec (n div 10) @ [digit_char (n mod 10)])"
  by pat_completeness auto
termination
  by (relation "measure (\<lambda>n. nat (2 * \<bar>n\<bar> + (if n < 0 then 1 else 0)))") auto

text \<open>
  \<open>getProp v k\<close> is the property read \<^verbatim>\<open>v.k\<close> for a value that is neither \<^verbatim>\<open>undefined\<close> nor
  \<^verbatim>\<open>null\<close> (where the read throws; the callers below check) and a name \<open>k\<close> that no
  string, number, boolean or array has as a property, which holds of every name the
  configuration code reads. \<open>own_props\<close> lists what a spread \<^verbatim>\<open>{...v}\<close> copies: the
  properties of an object, the indexed elements of an array, the indexed characters of
  a string, and nothing of any other value. \<open>assign\<close> writes properties over an object,
  as a later spread or a later key of an object literal does.
\<close>

fun getProp :: "jv \<Rightarrow> string \<Rightarrow> jv" where
  "getProp (JObj kvs) k = (case map_of kvs k of None \<Rightarrow> JUndef | Some v \<Rightarrow> v)"
| "getProp _ k = JUndef"

definition indexed :: "jv list \<Rightarrow> (string \<times> jv) list" where
  "indexed xs = zip (map (\<lambda>i. show_dec (int i)) [0..<length xs]) xs"

fun own_props :: "jv \<Rightarrow> (string \<times> jv) list" where
  "own_props (JObj kvs) = kvs"
| "own_props (JArr xs) = indexed xs"
| "own_props (JStr s) = indexed (map (\<lambda>c. JStr [c]) s)"
| "own_props _ = []"

definition assign :: "(string \<times> jv) list \<Rightarrow> (string \<times> jv) list \<Rightarrow> (string \<times> jv) list" where
  "assign base ext = fold (\<lambda>(k, v). AList.update k v) ext base"

text \<open>Sequencing of computations that may throw.\<close>

definition bindE :: "error + 'a \<Rightarrow> ('a \<Rightarrow> error + 'b) \<Rightarrow> error + 'b" where
  "bindE m f = (case m of Inl e \<Rightarrow> Inl e | Inr x \<Rightarrow> f x)"

fun mapE :: "('a \<Rightarrow> error + 'b) \<Rightarrow> 'a list \<Rightarrow> error + 'b list" where
  "mapE f [] = Inr []"
| "mapE f (x # xs) =
     (case f x of
        Inl e \<Rightarrow> Inl e
      | Inr y \<Rightarrow> (case mapE f xs of Inl e \<Rightarrow> Inl e | Inr ys \<Rightarrow> Inr (y # ys)))"

section \<open>Telemetry parser (services/StreamStatisticsParser.ts)\<close>

subsection \<open>The regular expressions\<close>

text \<open>
  The parser's seven patterns are sequences of literals, character-class repetitions and
  capture groups, so a pattern is a list of atoms: \<open>Lit\<close> a literal text, \<open>Rep c lo hi g\<close>
  the class \<open>c\<close> repeated \<open>lo\<close> to \<open>hi\<close> times (\<open>None\<close>: unbounded), greedy when \<open>g\<close> and
  lazy otherwise, \<open>Open n\<close> and \<open>Close n\<close> the parentheses of group \<open>n\<close>. Lines are
  \<open>string\<close>s (8-bit characters), so the classes are those of JavaScript restricted to
  Latin-1: \<^verbatim>\<open>\d\<close> is 0-9, \<^verbatim>\<open>\w\<close> is a letter, a digit or the underscore, \<^verbatim>\<open>\s\<close> is tab, line
  feed, vertical tab, form feed, carriage return, space and no-break space, and \<^verbatim>\<open>.\<close> is
  any character but a line terminator.
\<close>

datatype cls = Digit | DigitDot | Space | Word | AnyChar

definition is_digit :: "char \<Rightarrow> bool" where
  "is_digit c = (c \<in> set ''0123456789'')"

definition is_space :: "char \<Rightarrow> bool" where
  "is_space c = (c \<in> set [CHR 0x09, CHR 0x0A, CHR 0x0B, CHR 0x0C, CHR 0x0D, CHR 0x20, CHR 0xA0])"

definition is_word :: "char \<Rightarrow> bool" where
  "is_word c = (c \<in> set ''abcdefghijklmnopqrstuvwxyzABCDEFGHIJKLMNOPQRSTUVWXYZ0123456789_'')"

fun cls_mem :: "cls \<Rightarrow> char \<Rightarrow> bool" where
  "cls_mem Digit c = is_digit c"
| "cls_mem DigitDot c = (is_digit c \<or> c = CHR ''.'')"
| "cls_mem Space c = is_space c"
| "cls_mem Word c = is_word c"
| "cls_mem AnyChar c = (c \<noteq> CHR 0x0A \<and> c \<noteq> CHR 0x0D)"

datatype atom = Lit string | Rep cls nat "nat option" bool | Open nat | Close nat

text \<open>
  \<open>bt\<close> is the backtracking matcher anchored at the start of \<open>s\<close>: a greedy repetition
  tries the longest run first, a lazy one the shortest, and the first alternative that
  lets the rest of the pattern match wins. It returns the captured groups and the unread
  rest. \<open>search\<close> is \<^verbatim>\<open>String.prototype.match\<close> for a pattern without flags: the leftmost
  position at which the pattern matches, or \<open>None\<close> for \<^verbatim>\<open>null\<close>.
\<close>

fun first_some :: "'a option list \<Rightarrow> 'a option" where
  "first_some [] = None"
| "first_some (Some r # _) = Some r"
| "first_some (None # rs) = first_some rs"

type_synonym caps = "(nat \<times> string) list"

fun bt :: "atom list \<Rightarrow> string \<Rightarrow> caps \<Rightarrow> caps \<Rightarrow> (caps \<times> string) option" where
  "bt [] s os cs = Some (cs, s)"
| "bt (Lit l # as) s os cs =
     (if prefix l s then bt as (drop (length l) s) os cs else None)"
| "bt (Open n # as) s os cs = bt as s ((n, s) # os) cs"
| "bt (Close n # as) s os cs =
     (case map_of os n of
        None \<Rightarrow> None
      | Some start \<Rightarrow> bt as s os ((n, take (length start - length s) start) # cs))"
| "bt (Rep c lo hi greedy # as) s os cs =
     (let avail = length (takeWhile (cls_mem c) s);
          top = (case hi of None \<Rightarrow> avail | Some h \<Rightarrow> min h avail);
          ks = (if greedy then rev [lo..<Suc top] else [lo..<Suc top])
      in first_some (map (\<lambda>k. bt as (drop k s) os cs) ks))"

fun search :: "atom list \<Rightarrow> string \<Rightarrow> caps option" where
  "search as [] = map_option fst (bt as [] [] [])"
| "search as (c # s) =
     (case bt as (c # s) [] [] of Some (cs, _) \<Rightarrow> Some cs | None \<Rightarrow> search as s)"


text \<open>The compiled patterns of StreamStatisticsParser, atom by atom.\<close>

definition STATS_REGEX :: "atom list" where
  "STATS_REGEX =
     [Lit ''frame='', Rep Space 0 None True, Open 1, Rep Digit 1 None True, Close 1,
      Rep AnyChar 0 None False,
      Lit ''fps='', Rep Space 0 None True, Open 2, Rep DigitDot 1 None True, Close 2,
      Rep AnyChar 0 None False,
      Lit ''q='', Open 3, Rep DigitDot 1 None True, Close 3,
      Rep AnyChar 0 None False,
      Lit ''size='', Rep Space 0 None True, Open 4, Rep Digit 1 None True, Close 4,
      Rep Space 0 None True, Lit ''kB'',
      Rep AnyChar 0 None False,
      Lit ''time='', Open 5, Rep Digit 2 (Some 2) True, Close 5, Lit '':'',
      Open 6, Rep Digit 2 (Some 2) True, Close 6, Lit '':'',
      Open 7, Rep Digit 2 (Some 2) True, Lit ''.'', Rep Digit 2 (Some 2) True, Close 7,
      Rep AnyChar 0 None False,
      Lit ''bitrate='', Rep Space 0 None True, Open 8, Rep DigitDot 1 None True, Close 8,
      Rep Space 0 None True, Lit ''kbits/s'',
      Rep AnyChar 0 None False,
      Lit ''speed='', Rep Space 0 None True, Open 9, Rep DigitDot 1 None True, Close 9,
      Lit ''x'']"

definition FRAME_REGEX :: "atom list" where
  "FRAME_REGEX =
     [Lit ''frame='', Rep Space 0 None True, Open 1, Rep Digit 1 None True, Close 1]"

definition FPS_REGEX :: "atom list" where
  "FPS_REGEX =
     [Lit ''fps='', Rep Space 0 None True, Open 1, Rep DigitDot 1 None True, Close 1]"

definition BITRATE_REGEX :: "atom list" where
  "BITRATE_REGEX =
     [Lit ''bitrate='', Rep Space 0 None True, Open 1, Rep DigitDot 1 None True, Close 1,
      Rep Space 0 None True, Lit ''kbits/s'']"

definition TIME_REGEX :: "atom list" where
  "TIME_REGEX =
     [Lit ''time='', Open 1, Rep Digit 2 (Some 2) True, Close 1, Lit '':'',
      Open 2, Rep Digit 2 (Some 2) True, Close 2, Lit '':'',
      Open 3, Rep Digit 2 (Some 2) True, Lit ''.'', Rep Digit 2 (Some 2) True, Close 3]"

definition RESOLUTION_REGEX :: "atom list" where
  "RESOLUTION_REGEX =
     [Open 1, Rep Digit 2 (Some 5) True, Lit ''x'', Rep Digit 2 (Some 5) True, Close 1]"

definition CODEC_REGEX :: "atom list" where
  "CODEC_REGEX = [Lit ''Video:'', Rep Space 0 None True, Open 1, Rep Word 1 None True, Close 1]"

subsection \<open>Numbers\<close>

text \<open>
  A JavaScript number is \<open>NaN\<close> or a value; values are exact reals here (the rounding of
  IEEE doubles is not modelled). \<open>parseInt\<close> is \<^verbatim>\<open>parseInt(s, 10)\<close> and \<open>parseFloat\<close> is
  \<^verbatim>\<open>parseFloat(s)\<close> on the texts the capture groups can hold, which consist of digits and
  dots only: the longest prefix that is a decimal numeral is read, and there being none
  gives \<open>NaN\<close>.
\<close>

datatype number = NaN | Num real

definition digit_val :: "char \<Rightarrow> int" where
  "digit_val c = of_char c - 48"

definition dec_val :: "string \<Rightarrow> int" where
  "dec_val ds = foldl (\<lambda>n c. 10 * n + digit_val c) 0 ds"

definition parseInt :: "string \<Rightarrow> number" where
  "parseInt s =
     (let ds = takeWhile is_digit s
      in if ds = [] then NaN else Num (of_int (dec_val ds)))"

definition parseFloat :: "string \<Rightarrow> number" where
  "parseFloat s =
     (let ip = takeWhile is_digit s;
          rest = dropWhile is_digit s;
          fp = (case rest of c # r \<Rightarrow> (if c = CHR ''.'' then takeWhile is_digit r else [])
                | [] \<Rightarrow> [])
      in if ip = [] \<and> fp = [] then NaN
         else Num (of_int (dec_val ip) + of_int (dec_val fp) / 10 ^ length fp))"

fun num_add :: "number \<Rightarrow> number \<Rightarrow> number" where
  "num_add (Num a) (Num b) = Num (a + b)"
| "num_add _ _ = NaN"

fun num_mul :: "number \<Rightarrow> number \<Rightarrow> number" where
  "num_mul (Num a) (Num b) = Num (a * b)"
| "num_mul _ _ = NaN"

definition SECONDS_PER_HOUR :: number where "SECONDS_PER_HOUR = Num 3600"
definition SECONDS_PER_MINUTE :: number where "SECONDS_PER_MINUTE = Num 60"

subsection \<open>parseStderrLine\<close>

text \<open>An absent optional field of \<^verbatim>\<open>ParsedStatistics\<close> is \<open>None\<close>.\<close>

record ParsedStatistics =
  ps_frame :: "number option"
  ps_fps :: "number option"
  ps_bitrate :: "number option"
  ps_size :: "number option"
  ps_time :: "number option"
  ps_speed :: "number option"
  ps_quality :: "number option"
  ps_resolution :: "string option"
  ps_codec :: "string option"

definition empty_stats :: ParsedStatistics where
  "empty_stats =
     \<lparr>ps_frame = None, ps_fps = None, ps_bitrate = None, ps_size = None, ps_time = None,
      ps_speed = None, ps_quality = None, ps_resolution = None, ps_codec = None\<rparr>"

text \<open>\<open>grp m n\<close> is \<^verbatim>\<open>m[n]\<close>, the text of group \<open>n\<close> of a match.\<close>

definition grp :: "caps \<Rightarrow> nat \<Rightarrow> string" where
  "grp cs n = (case map_of cs n of Some x \<Rightarrow> x | None \<Rightarrow> [])"

text \<open>\<^verbatim>\<open>hours * SECONDS_PER_HOUR + minutes * SECONDS_PER_MINUTE + seconds\<close>.\<close>

definition hms :: "string \<Rightarrow> string \<Rightarrow> string \<Rightarrow> number" where
  "hms h m s =
     num_add (num_add (num_mul (parseInt h) SECONDS_PER_HOUR)
                      (num_mul (parseInt m) SECONDS_PER_MINUTE))
             (parseFloat s)"

definition parseStderrLine :: "string \<Rightarrow> ParsedStatistics option" where
  "parseStderrLine line =
     (case search STATS_REGEX line of
        Some m \<Rightarrow>
          Some (empty_stats
            \<lparr>ps_frame := Some (parseInt (grp m 1)),
             ps_fps := Some (parseFloat (grp m 2)),
             ps_quality := Some (parseFloat (grp m 3)),
             ps_size := Some (parseInt (grp m 4)),
             ps_time := Some (hms (grp m 5) (grp m 6) (grp m 7)),
             ps_bitrate := Some (parseFloat (grp m 8)),
             ps_speed := Some (parseFloat (grp m 9))\<rparr>)
      | None \<Rightarrow>
          (let stats0 = empty_stats; hasStats0 = False;
               (stats1, hasStats1) =
                 (case search FRAME_REGEX line of
                    Some fm \<Rightarrow> (stats0\<lparr>ps_frame := Some (parseInt (grp fm 1))\<rparr>, True)
                  | None \<Rightarrow> (stats0, hasStats0));
               (stats2, hasStats2) =
                 (case search FPS_REGEX line of
                    Some fm \<Rightarrow> (stats1\<lparr>ps_fps := Some (parseFloat (grp fm 1))\<rparr>, True)
                  | None \<Rightarrow> (stats1, hasStats1));
               (stats3, hasStats3) =
                 (case search BITRATE_REGEX line of
                    Some bm \<Rightarrow> (stats2\<lparr>ps_bitrate := Some (parseFloat (grp bm 1))\<rparr>, True)
                  | None \<Rightarrow> (stats2, hasStats2));
               (stats4, hasStats4) =
                 (case search TIME_REGEX line of
                    Some tm \<Rightarrow>
                      (stats3\<lparr>ps_time := Some (hms (grp tm 1) (grp tm 2) (grp tm 3))\<rparr>, True)
                  | None \<Rightarrow> (stats3, hasStats3));
               stats5 =
                 (case search RESOLUTION_REGEX line of
                    Some rm \<Rightarrow> stats4\<lparr>ps_resolution := Some (grp rm 1)\<rparr>
                  | None \<Rightarrow> stats4);
               stats6 =
                 (case search CODEC_REGEX line of
                    Some cm \<Rightarrow> stats5\<lparr>ps_codec := Some (grp cm 1)\<rparr>
                  | None \<Rightarrow> stats5)
           in if hasStats4 then Some stats6 else None))"

section \<open>Relay supervisor (stream/StreamManager.ts)\<close>

subsection \<open>Destinations and platform adapters\<close>

text \<open>
  \<^verbatim>\<open>PlatformConfig\<close> (core/interfaces/IPlatformAdapter.ts). The fields carry the prefix
  \<open>p_\<close>. Every caller of \<^verbatim>\<open>configure\<close> passes \<^verbatim>\<open>enabled: p.enabled ?? true\<close> and
  \<^verbatim>\<open>metadata: p.metadata || {}\<close>, so both are always present.
\<close>

record PlatformConfig =
  p_id :: "string option"
  p_name :: string
  p_displayName :: "string option"
  p_rtmpUrl :: string
  p_streamKey :: string
  p_enabled :: bool
  p_metadata :: "(string \<times> jv) list"

text \<open>\<^verbatim>\<open>platformConfig.id || platformConfig.name\<close>.\<close>

definition platformIdentifier :: "PlatformConfig \<Rightarrow> string" where
  "platformIdentifier pc =
     (case p_id pc of None \<Rightarrow> p_name pc | Some i \<Rightarrow> if i = [] then p_name pc else i)"

text \<open>
  The four adapters the registry holds, each with the \<^verbatim>\<open>validateConfig\<close> of its class;
  the result is the \<^verbatim>\<open>error\<close> text of a failed validation. \<^verbatim>\<open>configure\<close> of
  BasePlatformAdapter succeeds exactly when the validation does (the copy of the
  configuration it keeps in the adapter is read by nothing here).
\<close>

datatype adapter = YouTubeAdapter | TwitchAdapter | FacebookAdapter | KickAdapter

fun platformName :: "adapter \<Rightarrow> string" where
  "platformName YouTubeAdapter = ''youtube''"
| "platformName TwitchAdapter = ''twitch''"
| "platformName FacebookAdapter = ''facebook''"
| "platformName KickAdapter = ''kick''"

fun validateConfig :: "adapter \<Rightarrow> PlatformConfig \<Rightarrow> string option" where
  "validateConfig YouTubeAdapter pc =
     (if p_rtmpUrl pc = [] then Some ''RTMP URL is required''
      else if \<not> startsWith (p_rtmpUrl pc) ''rtmp://''
        then Some ''YouTube RTMP URL must start with rtmp://''
      else if p_streamKey pc = [] then Some ''Stream key is required''
      else None)"
| "validateConfig TwitchAdapter pc =
     (if p_rtmpUrl pc = [] then Some ''RTMP URL is required''
      else if \<not> startsWith (p_rtmpUrl pc) ''rtmp://''
        then Some ''Twitch RTMP URL must start with rtmp://''
      else if p_streamKey pc = [] then Some ''Stream key is required''
      else None)"
| "validateConfig FacebookAdapter pc =
     (if p_rtmpUrl pc = [] then Some ''RTMP URL is required''
      else if \<not> startsWith (p_rtmpUrl pc) ''rtmp://'' \<and> \<not> startsWith (p_rtmpUrl pc) ''rtmps://''
        then Some ''Facebook RTMP URL must start with rtmp:// or rtmps://''
      else if p_streamKey pc = [] then Some ''Stream key is required''
      else None)"
| "validateConfig KickAdapter pc =
     (if p_rtmpUrl pc = [] then Some ''RTMP URL is required''
      else if \<not> startsWith (p_rtmpUrl pc) ''rtmp://'' \<and> \<not> startsWith (p_rtmpUrl pc) ''rtmps://''
        then Some ''Kick RTMP URL must start with rtmp:// or rtmps://''
      else if p_streamKey pc = [] then Some ''Stream key is required''
      else None)"

subsection \<open>The supervisor's state\<close>

datatype password = PwUndefined | PwNull | PwStr string

text \<open>\<^verbatim>\<open>StreamManagerConfig\<close> of StreamManager.ts, the argument of \<^verbatim>\<open>configure\<close>.\<close>

record SupervisorConfig =
  obsHost :: string
  obsPort :: real
  obsPassword :: password
  autoReconnect :: bool
  reconnectDelay :: real
  maxReconnectAttempts :: real
  platforms :: "PlatformConfig list"

text \<open>
  A spawned child. \<open>killed\<close> and \<open>exitCode\<close> are the properties of Node's
  \<^verbatim>\<open>ChildProcess\<close>; the other fields are what the listeners registered in
  \<^verbatim>\<open>startPlatformStreamInternal\<close> close over (\<open>cp_listening\<close>: the listeners are still
  attached), and \<open>cp_args\<close> is the argument vector of the \<^verbatim>\<open>spawn\<close>.
\<close>

record ChildProcess =
  killed :: bool
  exitCode :: "int option"
  cp_platformIdentifier :: string
  cp_isRTMPS :: bool
  cp_args :: "string list"
  cp_listening :: bool
  stdoutBufferSize :: int
  stderrBufferSize :: int

record stream_state =
  connected :: bool
  streaming :: bool

text \<open>One entry of the \<^verbatim>\<open>platforms\<close> object of \<^verbatim>\<open>getStatus\<close>.\<close>

record platform_status =
  st_platform :: string
  st_status :: string
  st_connected :: "bool option"
  st_streaming :: "bool option"
  st_config_name :: string
  st_config_displayName :: "string option"
  st_config_enabled :: bool

text \<open>\<^verbatim>\<open>StreamStatistics\<close> (core/interfaces/IWebSocketService.ts).\<close>

record StreamStatistics =
  ss_platformId :: string
  ss_platformName :: string
  ss_bitrate :: "number option"
  ss_fps :: "number option"
  ss_resolution :: "string option"
  ss_codec :: "string option"
  ss_status :: string
  ss_uptime :: "number option"
  ss_errors :: nat

text \<open>
  What the supervisor hands to the WebSocket service: the argument of
  \<^verbatim>\<open>broadcastStatus\<close> (its \<^verbatim>\<open>platforms\<close> part) or of \<^verbatim>\<open>broadcastStatistics\<close>. Console
  output and log envelopes are not modelled.
\<close>

datatype envelope =
  StatusEnvelope "(string \<times> platform_status) list"
  | StatisticsEnvelope "StreamStatistics list"

text \<open>
  The fields of the class, prefixed \<open>sm_\<close> where the name is used elsewhere, followed by
  the surroundings the methods read: \<open>procs\<close> is the store of spawned children by process
  number and \<open>next_pid\<close> the next free number (\<open>ffmpegProcesses\<close> holds references into
  the store); \<open>wsService\<close> says whether the registry resolves
  \<^verbatim>\<open>IWebSocketService\<close>; \<open>sent\<close> lists the envelopes handed to it; \<open>ffmpegError\<close> is the
  \<^verbatim>\<open>error\<close> of \<^verbatim>\<open>checkFFmpeg()\<close> (\<open>None\<close>: available) and \<open>installInstructions\<close> the
  text of \<^verbatim>\<open>getFFmpegInstallInstructions()\<close>; \<open>streamPath\<close> is
  \<^verbatim>\<open>rtmpServer.getStreamPath()\<close> (\<open>None\<close>: the registry does not resolve
  \<^verbatim>\<open>rtmp_server\<close>).
\<close>

record StreamManager =
  sm_streamProvider :: bool
  platformAdapters :: "(string \<times> adapter) list"
  sm_config :: "SupervisorConfig option"
  platformConfigMap :: "(string \<times> PlatformConfig) list"
  sm_streaming :: bool
  ffmpegProcesses :: "(string \<times> nat) list"
  platformStreamStates :: "(string \<times> stream_state) list"
  platformStatistics :: "(string \<times> ParsedStatistics) list"
  statisticsInterval :: bool
  statisticsChanged :: "string list"
  statisticsDebounceTimer :: bool
  procs :: "nat \<Rightarrow> ChildProcess"
  next_pid :: nat
  wsService :: bool
  sent :: "envelope list"
  ffmpegError :: "string option"
  installInstructions :: string
  streamPath :: "string option"

definition no_process :: ChildProcess where
  "no_process =
     \<lparr>killed = False, exitCode = None, cp_platformIdentifier = [], cp_isRTMPS = False,
      cp_args = [], cp_listening = False, stdoutBufferSize = 0, stderrBufferSize = 0\<rparr>"

text \<open>The object the constructor builds.\<close>

definition new_StreamManager :: StreamManager where
  "new_StreamManager =
     \<lparr>sm_streamProvider = False, platformAdapters = [], sm_config = None,
      platformConfigMap = [], sm_streaming = False, ffmpegProcesses = [],
      platformStreamStates = [], platformStatistics = [], statisticsInterval = False,
      statisticsChanged = [], statisticsDebounceTimer = False,
      procs = (\<lambda>_. no_process), next_pid = 0, wsService = False, sent = [],
      ffmpegError = None, installInstructions = [], streamPath = None\<rparr>"

text \<open>
  The manager once \<^verbatim>\<open>initialize\<close> and \<^verbatim>\<open>activate\<close> have run in the registry that
  \<^verbatim>\<open>setupRegistry\<close> fills: the stream provider and the four adapters are resolved, the
  four-second statistics interval is running, the WebSocket service resolves, FFmpeg is
  on the path and the ingest's stream path is \<open>path\<close>.
\<close>

definition active_StreamManager :: "string \<Rightarrow> StreamManager" where
  "active_StreamManager path =
     new_StreamManager
       \<lparr>sm_streamProvider := True,
        platformAdapters := map (\<lambda>a. (platformName a, a))
                              [YouTubeAdapter, TwitchAdapter, FacebookAdapter, KickAdapter],
        statisticsInterval := True, wsService := True, streamPath := Some path\<rparr>"

subsection \<open>Status snapshot\<close>

definition off :: stream_state where
  "off = \<lparr>connected = False, streaming = False\<rparr>"

definition on :: stream_state where
  "on = \<lparr>connected = True, streaming = True\<rparr>"

text \<open>The body of the loop of \<^verbatim>\<open>getStatus\<close> for one destination: its key and its entry.\<close>

definition platformStatus :: "StreamManager \<Rightarrow> PlatformConfig \<Rightarrow> string \<times> platform_status" where
  "platformStatus s platformConfig =
     (let platformId = platformIdentifier platformConfig;
          streamState = map_of (platformStreamStates s) platformId;
          ffmpegProcess = map_option (procs s) (map_of (ffmpegProcesses s) platformId);
          isProcessAlive =
            (case ffmpegProcess of None \<Rightarrow> None
             | Some p \<Rightarrow> Some (\<not> killed p \<and> exitCode p = None));
          stateSaysDisconnected =
            (case streamState of None \<Rightarrow> None
             | Some st \<Rightarrow> Some (\<not> streaming st \<and> \<not> connected st));
          isStreaming =
            land (land (Some (\<not> truthy_b stateSaysDisconnected)) isProcessAlive)
                 (Some (case streamState of None \<Rightarrow> False | Some st \<Rightarrow> streaming st));
          isConnected =
            land (land (Some (\<not> truthy_b stateSaysDisconnected)) isProcessAlive)
                 (Some (case streamState of None \<Rightarrow> False | Some st \<Rightarrow> connected st));
          finalStatus =
            (if truthy_b stateSaysDisconnected then ''idle''
             else if truthy_b isStreaming then ''streaming''
             else if truthy_b isConnected then ''connected''
             else ''idle'')
      in (platformId,
          \<lparr>st_platform = p_name platformConfig,
           st_status = finalStatus,
           st_connected = land isConnected (Some (\<not> truthy_b stateSaysDisconnected)),
           st_streaming = land isStreaming (Some (\<not> truthy_b stateSaysDisconnected)),
           st_config_name = p_name platformConfig,
           st_config_displayName = p_displayName platformConfig,
           st_config_enabled = p_enabled platformConfig\<rparr>))"

text \<open>
  The \<^verbatim>\<open>platforms\<close> object of the snapshot \<^verbatim>\<open>getStatus\<close> returns: one property per
  configured destination, a later destination with the same key overwriting an earlier
  one. (The other properties of the snapshot repeat \<^verbatim>\<open>this.streaming\<close>, the lifecycle
  and the ingest's stream info.)
\<close>

definition getStatus :: "StreamManager \<Rightarrow> (string \<times> platform_status) list" where
  "getStatus s =
     (case sm_config s of
        None \<Rightarrow> []
      | Some cfg \<Rightarrow>
          fold (\<lambda>platformConfig acc.
                  AList.update (fst (platformStatus s platformConfig))
                               (snd (platformStatus s platformConfig)) acc)
               (platforms cfg) [])"

text \<open>
  \<^verbatim>\<open>broadcastStatus\<close>: nothing when the WebSocket service does not resolve, else the
  snapshot is handed to it. (The snapshot's \<^verbatim>\<open>platforms\<close> part is computed before the
  method's first \<^verbatim>\<open>await\<close>, that is at the time of this call.)
\<close>

definition broadcastStatus :: "StreamManager \<Rightarrow> StreamManager" where
  "broadcastStatus s =
     (if \<not> wsService s then s else s\<lparr>sent := sent s @ [StatusEnvelope (getStatus s)]\<rparr>)"

subsection \<open>Configuration lookup\<close>

definition rebuildPlatformConfigMap :: "StreamManager \<Rightarrow> StreamManager" where
  "rebuildPlatformConfigMap s =
     (case sm_config s of
        None \<Rightarrow> s
      | Some cfg \<Rightarrow>
          s\<lparr>platformConfigMap :=
              fold (\<lambda>platformConfig m.
                      let platformId = platformIdentifier platformConfig;
                          m1 = AList.update platformId platformConfig m
                      in if \<not> absent_or_empty (p_id platformConfig)
                            \<and> p_id platformConfig \<noteq> Some (p_name platformConfig)
                         then AList.update (p_name platformConfig) platformConfig m1
                         else m1)
                   (platforms cfg) []\<rparr>)"

text \<open>\<^verbatim>\<open>getPlatformConfig\<close> returns the entry and the manager, whose lookup table it may rebuild.\<close>

definition getPlatformConfig ::
  "StreamManager \<Rightarrow> string \<Rightarrow> PlatformConfig option \<times> StreamManager" where
  "getPlatformConfig s platformIdOrName =
     (let s1 = (if platformConfigMap s = [] \<and> sm_config s \<noteq> None
                then rebuildPlatformConfigMap s else s)
      in (map_of (platformConfigMap s1) platformIdOrName, s1))"

text \<open>
  \<^verbatim>\<open>configure\<close>: the loop over the adapters after the rebuild only calls
  \<^verbatim>\<open>adapter.configure\<close> and logs; it changes nothing of the manager.
\<close>

definition configure :: "StreamManager \<Rightarrow> SupervisorConfig \<Rightarrow> StreamManager" where
  "configure s cfg = rebuildPlatformConfigMap (s\<lparr>sm_config := Some cfg\<rparr>)"

subsection \<open>Spawning a relay child\<close>

text \<open>\<^verbatim>\<open>rtmpUrl.replace(/\/$/, '')\<close>: one slash at the very end is removed.\<close>

definition stripTrailingSlash :: "string \<Rightarrow> string" where
  "stripTrailingSlash u = (if u \<noteq> [] \<and> last u = CHR ''/'' then butlast u else u)"

text \<open>The local \<^verbatim>\<open>outputUrl\<close> of \<^verbatim>\<open>startPlatformStreamInternal\<close>.\<close>

definition outputUrl :: "PlatformConfig \<Rightarrow> string" where
  "outputUrl platformConfig =
     (let rtmpsProtocol = ''rtmps://''; appPath = ''/app''; appPathWithSlash = ''/app/'';
          pathSeparator = ''/'';
          rtmpUrl = p_rtmpUrl platformConfig;
          isRTMPS = startsWith rtmpUrl rtmpsProtocol
      in if isRTMPS then
           (if endsWith rtmpUrl appPath
              then rtmpUrl @ pathSeparator @ p_streamKey platformConfig
            else if endsWith rtmpUrl appPathWithSlash
              then rtmpUrl @ p_streamKey platformConfig
            else stripTrailingSlash rtmpUrl @ appPath @ pathSeparator
                   @ p_streamKey platformConfig)
         else rtmpUrl @ pathSeparator @ p_streamKey platformConfig)"

text \<open>The argument vector \<^verbatim>\<open>ffmpegArgs\<close> handed to \<^verbatim>\<open>spawn('ffmpeg', ...)\<close>.\<close>

definition ffmpegArgs :: "PlatformConfig \<Rightarrow> string \<Rightarrow> string list" where
  "ffmpegArgs platformConfig inputStream =
     [''-i'', inputStream, ''-c:v'', ''copy'', ''-c:a'', ''copy'', ''-f'', ''flv'',
      ''-threads'', ''2'']
     @ [''-loglevel'', ''info'']
     @ (if startsWith (p_rtmpUrl platformConfig) ''rtmps://''
        then [''-protocol_whitelist'', ''rtmp,rtmps,file,http,https,tcp,tls'',
              ''-reconnect'', ''1'', ''-reconnect_at_eof'', ''1'',
              ''-reconnect_streamed'', ''1'', ''-reconnect_delay_max'', ''2'',
              ''-rtmp_live'', ''live'', ''-bufsize'', ''384k'']
        else [])
     @ [outputUrl platformConfig]"

text \<open>
  \<^verbatim>\<open>startPlatformStreamInternal\<close>: throws when FFmpeg is not available, else spawns the
  child, registers its listeners and stores it in \<open>ffmpegProcesses\<close> under the identifier.
\<close>

definition startPlatformStreamInternal ::
  "StreamManager \<Rightarrow> PlatformConfig \<Rightarrow> string \<Rightarrow> string \<Rightarrow> error option \<times> StreamManager" where
  "startPlatformStreamInternal s platformConfig platformIdentifier' inputStream =
     (case ffmpegError s of
        Some err \<Rightarrow>
          (Some (Error (''FFmpeg is not available: '' @ err @ [CHR 0x0A, CHR 0x0A]
                        @ installInstructions s)), s)
      | None \<Rightarrow>
          (let ffmpegProcess =
                 \<lparr>killed = False, exitCode = None,
                  cp_platformIdentifier = platformIdentifier',
                  cp_isRTMPS = startsWith (p_rtmpUrl platformConfig) ''rtmps://'',
                  cp_args = ffmpegArgs platformConfig inputStream,
                  cp_listening = True, stdoutBufferSize = 0, stderrBufferSize = 0\<rparr>;
               pid = next_pid s
           in (None,
               s\<lparr>procs := (procs s)(pid := ffmpegProcess), next_pid := Suc pid,
                 ffmpegProcesses := AList.update platformIdentifier' pid (ffmpegProcesses s)\<rparr>)))"

subsection \<open>Start and stop of one destination\<close>

definition rtmp_unavailable_message :: string where
  "rtmp_unavailable_message =
     ''RTMP stream is not available. Please ensure:'' @ [CHR 0x0A]
     @ ''1. OBS Studio is running and streaming to rtmp://localhost:1935/live/obs'' @ [CHR 0x0A]
     @ ''2. RTMP server is running and accessible'' @ [CHR 0x0A]
     @ ''3. Stream key matches the configured key''"

text \<open>What the \<^verbatim>\<open>catch\<close> block of \<^verbatim>\<open>startPlatformStream\<close> throws for a caught error.\<close>

definition rethrown :: "error \<Rightarrow> error" where
  "rethrown e =
     (case e of
        Error msg \<Rightarrow>
          (if includesStr msg ''Connection refused'' \<or> includesStr msg ''No such file''
              \<or> includesStr msg ''Input/output error''
           then Error rtmp_unavailable_message else e)
      | _ \<Rightarrow> e)"

text \<open>The \<^verbatim>\<open>try\<close> block of \<^verbatim>\<open>startPlatformStream\<close>.\<close>

definition startPlatformStream_try ::
  "StreamManager \<Rightarrow> adapter \<Rightarrow> PlatformConfig \<Rightarrow> string \<Rightarrow> error option \<times> StreamManager" where
  "startPlatformStream_try s adapter' platformConfig platformIdentifier' =
     (case validateConfig adapter' platformConfig of
        Some err \<Rightarrow> (Some (Error (''Failed to configure platform: '' @ err)), s)
      | None \<Rightarrow>
          (case streamPath s of
             None \<Rightarrow> (Some (Error ''Module rtmp_server not found''), s)
           | Some path \<Rightarrow>
               (let inputStream = ''rtmp://localhost:1935'' @ path
                in case startPlatformStreamInternal s platformConfig platformIdentifier'
                          inputStream of
                     (Some e, s1) \<Rightarrow> (Some e, s1)
                   | (None, s1) \<Rightarrow>
                       (None,
                        broadcastStatus
                          (s1\<lparr>platformStreamStates :=
                                 AList.update platformIdentifier' on
                                   (platformStreamStates s1)\<rparr>)))))"

text \<open>
  \<^verbatim>\<open>startPlatformStream\<close> returns \<open>Inr True\<close> for \<^verbatim>\<open>true\<close> or \<open>Inl\<close> the error it
  throws, and the manager after the call.
\<close>

definition startPlatformStream ::
  "StreamManager \<Rightarrow> string \<Rightarrow> (error + bool) \<times> StreamManager" where
  "startPlatformStream s platformIdOrName =
     (if \<not> sm_streamProvider s then (Inl (Error ''Stream provider is not available''), s)
      else if sm_config s = None
        then (Inl (Error ''Stream manager configuration is not set''), s)
      else
        (case getPlatformConfig s platformIdOrName of
           (None, s1) \<Rightarrow>
             (Inl (Error (''Platform configuration not found: '' @ platformIdOrName)), s1)
         | (Some platformConfig, s1) \<Rightarrow>
             (if \<not> p_enabled platformConfig
                then (Inl (Error (''Platform '' @ platformIdOrName @ '' is disabled'')), s1)
              else
                (let platformIdentifier' = platformIdentifier platformConfig
                 in if map_of (ffmpegProcesses s1) platformIdentifier' \<noteq> None
                      then (Inr True, s1)
                    else
                      (case map_of (platformAdapters s1) (p_name platformConfig) of
                         None \<Rightarrow>
                           (Inl (Error (''Platform adapter not found: ''
                                        @ p_name platformConfig)), s1)
                       | Some adapter' \<Rightarrow>
                           (case startPlatformStream_try s1 adapter' platformConfig
                                   platformIdentifier' of
                              (None, s2) \<Rightarrow> (Inr True, s2)
                            | (Some e, s2) \<Rightarrow>
                                (Inl (rethrown e),
                                 s2\<lparr>platformStreamStates :=
                                      AList.update platformIdentifier' off
                                        (platformStreamStates s2)\<rparr>)))))))"

text \<open>
  \<^verbatim>\<open>kill('SIGTERM')\<close> of Node's \<^verbatim>\<open>ChildProcess\<close>: a child that has not exited yet is
  sent the signal and gets \<^verbatim>\<open>killed = true\<close>; for one that has exited nothing happens.
\<close>

definition kill :: "ChildProcess \<Rightarrow> ChildProcess" where
  "kill p = (if exitCode p = None then p\<lparr>killed := True\<rparr> else p)"

text \<open>
  \<^verbatim>\<open>stopPlatformStream\<close> returns the error it throws, if any, and the manager after the
  call. Nothing in its \<^verbatim>\<open>try\<close> block throws (an exception of \<^verbatim>\<open>kill\<close> is caught inside
  it, and \<^verbatim>\<open>broadcastStatus\<close> catches its own).
\<close>

definition stopPlatformStream ::
  "StreamManager \<Rightarrow> string \<Rightarrow> error option \<times> StreamManager" where
  "stopPlatformStream s platformIdOrName =
     (if sm_config s = None
        then (Some (Error ''Stream manager configuration is not set''), s)
      else
        (case getPlatformConfig s platformIdOrName of
           (None, s1) \<Rightarrow>
             (Some (Error (''Platform configuration not found: '' @ platformIdOrName)), s1)
         | (Some platformConfig, s1) \<Rightarrow>
             (let platformIdentifier' = platformIdentifier platformConfig
              in case map_of (platformAdapters s1) (p_name platformConfig) of
                   None \<Rightarrow>
                     (Some (Error (''Platform adapter not found: '' @ p_name platformConfig)),
                      s1)
                 | Some _ \<Rightarrow>
                     (let s2 =
                            (case map_of (ffmpegProcesses s1) platformIdentifier' of
                               None \<Rightarrow> s1
                             | Some pid \<Rightarrow>
                                 s1\<lparr>procs :=
                                      (procs s1)
                                        (pid := (if \<not> killed (procs s1 pid)
                                                 then kill (procs s1 pid)
                                                 else procs s1 pid)),
                                    ffmpegProcesses :=
                                      AList.delete platformIdentifier' (ffmpegProcesses s1)\<rparr>);
                          s3 = s2\<lparr>platformStreamStates :=
                                    AList.update platformIdentifier' off
                                      (platformStreamStates s2)\<rparr>;
                          s4 = s3\<lparr>platformStatistics :=
                                    AList.delete platformIdentifier' (platformStatistics s3),
                                  statisticsChanged :=
                                    removeAll platformIdentifier' (statisticsChanged s3)\<rparr>
                      in (None, broadcastStatus s4)))))"

subsection \<open>Start and stop of all destinations\<close>

text \<open>
  The inner loop of \<^verbatim>\<open>startStream\<close> over the enabled configurations of one adapter. The
  flag says whether \<^verbatim>\<open>startPlatformStreamInternal\<close> threw, which leaves the loop for the
  \<^verbatim>\<open>catch\<close> of the outer one; the list collects \<^verbatim>\<open>successPlatforms\<close>.
\<close>

fun startStream_configs ::
  "adapter \<Rightarrow> string \<Rightarrow> PlatformConfig list \<Rightarrow> StreamManager \<Rightarrow> string list
     \<Rightarrow> bool \<times> StreamManager \<times> string list" where
  "startStream_configs a inputStream [] s successPlatforms = (False, s, successPlatforms)"
| "startStream_configs a inputStream (platformConfig # rest) s successPlatforms =
     (let platformIdentifier' = platformIdentifier platformConfig
      in if validateConfig a platformConfig \<noteq> None
           then startStream_configs a inputStream rest s successPlatforms
         else
           (case startPlatformStreamInternal s platformConfig platformIdentifier' inputStream of
              (Some e, s1) \<Rightarrow> (True, s1, successPlatforms)
            | (None, s1) \<Rightarrow>
                startStream_configs a inputStream rest
                  (s1\<lparr>platformStreamStates :=
                        AList.update platformIdentifier' on (platformStreamStates s1)\<rparr>)
                  (successPlatforms @ [platformIdentifier'])))"

text \<open>The outer loop over \<^verbatim>\<open>activePlatforms\<close>, collecting successes and failures.\<close>

fun startStream_adapters ::
  "SupervisorConfig \<Rightarrow> string \<Rightarrow> (string \<times> adapter) list \<Rightarrow> StreamManager
     \<Rightarrow> string list \<Rightarrow> string list \<Rightarrow> StreamManager \<times> string list \<times> string list" where
  "startStream_adapters cfg inputStream [] s successPlatforms failedPlatforms =
     (s, successPlatforms, failedPlatforms)"
| "startStream_adapters cfg inputStream ((n, a) # rest) s successPlatforms failedPlatforms =
     (let platformConfigs = filter (\<lambda>p. p_name p = n \<and> p_enabled p) (platforms cfg)
      in case startStream_configs a inputStream platformConfigs s successPlatforms of
           (threw, s1, successPlatforms1) \<Rightarrow>
             startStream_adapters cfg inputStream rest s1 successPlatforms1
               (if threw then failedPlatforms @ [n] else failedPlatforms))"

definition startStream :: "StreamManager \<Rightarrow> (error + bool) \<times> StreamManager" where
  "startStream s =
     (if \<not> sm_streamProvider s then (Inl (Error ''Stream provider is not available''), s)
      else
        (case sm_config s of
           None \<Rightarrow> (Inl (Error ''Stream manager configuration is not set''), s)
         | Some cfg \<Rightarrow>
             (let activePlatforms =
                    filter (\<lambda>(n, a).
                              case find (\<lambda>p. p_name p = n) (platforms cfg) of
                                None \<Rightarrow> False | Some p \<Rightarrow> p_enabled p)
                           (platformAdapters s)
              in if activePlatforms = []
                   then (Inl (Error (''No active platforms configured.'' @ [CHR 0x0A]
                           @ ''Please configure at least one platform in the web interface.'')),
                         s)
                 else
                   (case streamPath s of
                      None \<Rightarrow> (Inl (Error ''Module rtmp_server not found''), s)
                    | Some path \<Rightarrow>
                        (case startStream_adapters cfg (''rtmp://localhost:1935'' @ path)
                                activePlatforms s [] [] of
                           (s1, successPlatforms, failedPlatforms) \<Rightarrow>
                             (if successPlatforms = []
                                then (Inl (Error (''Failed to start stream on all platforms.''
                                        @ [CHR 0x0A] @ ''Failed platforms: ''
                                        @ join_str '', '' failedPlatforms)), s1)
                              else (Inr True, s1\<lparr>sm_streaming := True\<rparr>)))))))"

text \<open>
  \<^verbatim>\<open>stopStream\<close>: every entry of \<open>ffmpegProcesses\<close> is killed, removed and its state
  switched off.
\<close>

definition stopStream :: "StreamManager \<Rightarrow> StreamManager" where
  "stopStream s =
     (if \<not> sm_streaming s then s
      else
        (fold (\<lambda>(platformIdentifier', pid) s1.
                 s1\<lparr>procs := (procs s1)(pid := kill (procs s1 pid)),
                    ffmpegProcesses := AList.delete platformIdentifier' (ffmpegProcesses s1),
                    platformStreamStates :=
                      AList.update platformIdentifier' off (platformStreamStates s1)\<rparr>)
              (ffmpegProcesses s) s)
        \<lparr>sm_streaming := False\<rparr>)"

subsection \<open>Statistics broadcast\<close>

text \<open>The entry \<^verbatim>\<open>broadcastStatisticsUpdate\<close> pushes for one changed destination.\<close>

definition statisticsEntry :: "StreamManager \<Rightarrow> string \<Rightarrow> PlatformConfig \<Rightarrow> StreamStatistics" where
  "statisticsEntry s platformId platformConfig =
     (let stats = map_of (platformStatistics s) platformId;
          streamState = map_of (platformStreamStates s) platformId;
          ffmpegProcess = map_option (procs s) (map_of (ffmpegProcesses s) platformId);
          isStreaming =
            (case ffmpegProcess of
               None \<Rightarrow> False
             | Some p \<Rightarrow>
                 \<not> killed p \<and> (case streamState of None \<Rightarrow> False | Some st \<Rightarrow> streaming st))
      in \<lparr>ss_platformId = platformId,
          ss_platformName =
            (if absent_or_empty (p_displayName platformConfig) then p_name platformConfig
             else the (p_displayName platformConfig)),
          ss_bitrate = Option.bind stats ps_bitrate,
          ss_fps = Option.bind stats ps_fps,
          ss_resolution = Option.bind stats ps_resolution,
          ss_codec = Option.bind stats ps_codec,
          ss_status = (if isStreaming then ''streaming'' else ''idle''),
          ss_uptime = Option.bind stats ps_time,
          ss_errors = 0\<rparr>)"

text \<open>
  \<^verbatim>\<open>broadcastStatisticsUpdate\<close>: nothing when the WebSocket service does not resolve or
  no destination is marked changed; else the entries of the changed destinations that
  the lookup table knows are collected, the changed set is cleared, and a non-empty
  collection is handed to \<^verbatim>\<open>broadcastStatistics\<close>.
\<close>

definition broadcastStatisticsUpdate :: "StreamManager \<Rightarrow> StreamManager" where
  "broadcastStatisticsUpdate s =
     (if \<not> wsService s then s
      else if statisticsChanged s = [] then s
      else
        (let statistics =
               (if sm_config s \<noteq> None
                then concat (map (\<lambda>platformId.
                                    case map_of (platformConfigMap s) platformId of
                                      None \<Rightarrow> []
                                    | Some platformConfig \<Rightarrow>
                                        [statisticsEntry s platformId platformConfig])
                                 (statisticsChanged s))
                else []);
             s1 = s\<lparr>statisticsChanged := []\<rparr>
         in if statistics \<noteq> [] then s1\<lparr>sent := sent s1 @ [StatisticsEnvelope statistics]\<rparr>
            else s1))"

text \<open>
  \<^verbatim>\<open>scheduleStatisticsBroadcast\<close> replaces a pending debounce timer by a new one of 100 ms.
  Time is not modelled: the flag says that a timer is pending, and its expiry is the
  event \<open>DebounceFire\<close> below.
\<close>

definition scheduleStatisticsBroadcast :: "StreamManager \<Rightarrow> StreamManager" where
  "scheduleStatisticsBroadcast s = s\<lparr>statisticsDebounceTimer := True\<rparr>"

subsection \<open>Listeners of a relay child\<close>

text \<open>
  The body of the loop over the lines of a stderr chunk, for a child spawned for
  \<open>platformIdentifier'\<close>: a line that contains \<^verbatim>\<open>frame=\<close>, \<^verbatim>\<open>fps=\<close> or \<^verbatim>\<open>bitrate=\<close> and
  that the parser recognises stores its statistics, marks the destination changed and
  schedules the debounced broadcast. (Every other branch only logs.)
\<close>

definition stderrLine :: "string \<Rightarrow> string \<Rightarrow> StreamManager \<Rightarrow> StreamManager" where
  "stderrLine platformIdentifier' line s =
     (if includesStr line ''frame='' \<or> includesStr line ''fps='' \<or> includesStr line ''bitrate=''
      then
        (case parseStderrLine line of
           Some stats \<Rightarrow>
             scheduleStatisticsBroadcast
               (s\<lparr>platformStatistics :=
                    AList.update platformIdentifier' stats (platformStatistics s),
                  statisticsChanged := set_add platformIdentifier' (statisticsChanged s)\<rparr>)
         | None \<Rightarrow> s)
      else s)"

definition maxBufferResetSize :: int where
  "maxBufferResetSize = 1024 * 1024"

text \<open>\<^verbatim>\<open>output.split('\n').filter(line => line.trim())\<close>.\<close>

definition stderrLines :: "string \<Rightarrow> string list" where
  "stderrLines output = filter (\<lambda>line. \<exists>c \<in> set line. \<not> is_space c) (split_on (CHR 0x0A) output)"

text \<open>The \<^verbatim>\<open>data\<close> listeners of the child's stdout and stderr.\<close>

definition onStdoutData :: "nat \<Rightarrow> string \<Rightarrow> StreamManager \<Rightarrow> StreamManager" where
  "onStdoutData pid output s =
     (let p = procs s pid;
          n = stdoutBufferSize p + int (length output)
      in s\<lparr>procs := (procs s)
              (pid := p\<lparr>stdoutBufferSize := (if n > maxBufferResetSize then 0 else n)\<rparr>)\<rparr>)"

definition onStderrData :: "nat \<Rightarrow> string \<Rightarrow> StreamManager \<Rightarrow> StreamManager" where
  "onStderrData pid output s =
     (let p = procs s pid;
          n = stderrBufferSize p + int (length output);
          s1 = s\<lparr>procs := (procs s)
                 (pid := p\<lparr>stderrBufferSize := (if n > maxBufferResetSize then 0 else n)\<rparr>)\<rparr>
      in fold (stderrLine (cp_platformIdentifier p)) (stderrLines output) s1)"

text \<open>
  The \<^verbatim>\<open>error\<close> and the \<^verbatim>\<open>close\<close> listener do the same to the manager: all listeners of
  the child are removed, the entry of its identifier is deleted from \<open>ffmpegProcesses\<close>,
  its statistics and its changed mark are deleted, its state is switched off and the
  status is broadcast.
\<close>

definition onChildEnd :: "nat \<Rightarrow> StreamManager \<Rightarrow> StreamManager" where
  "onChildEnd pid s =
     (let p = procs s pid;
          platformIdentifier' = cp_platformIdentifier p
      in broadcastStatus
           (s\<lparr>procs := (procs s)(pid := p\<lparr>cp_listening := False\<rparr>),
              ffmpegProcesses := AList.delete platformIdentifier' (ffmpegProcesses s),
              platformStatistics := AList.delete platformIdentifier' (platformStatistics s),
              statisticsChanged := removeAll platformIdentifier' (statisticsChanged s),
              platformStreamStates :=
                AList.update platformIdentifier' off (platformStreamStates s)\<rparr>))"

subsection \<open>Events\<close>

text \<open>
  Everything that can happen to the supervisor between two observations: a call of one
  of its methods, an event of a spawned child (\<open>ChildExit\<close> is the exit of the process
  itself, which sets \<^verbatim>\<open>exitCode\<close>; the \<^verbatim>\<open>close\<close> event follows it), or the expiry of one
  of the two timers. An event of a child reaches a listener only while the child's
  listeners are attached.
\<close>

datatype event =
  Configure SupervisorConfig
  | StartPlatform string
  | StopPlatform string
  | StartAll
  | StopAll
  | ChildStdout nat string
  | ChildStderr nat string
  | ChildExit nat "int option"
  | ChildError nat
  | ChildClose nat
  | DebounceFire
  | IntervalFire

fun step :: "event \<Rightarrow> StreamManager \<Rightarrow> StreamManager" where
  "step (Configure cfg) s = configure s cfg"
| "step (StartPlatform x) s = snd (startPlatformStream s x)"
| "step (StopPlatform x) s = snd (stopPlatformStream s x)"
| "step StartAll s = snd (startStream s)"
| "step StopAll s = stopStream s"
| "step (ChildStdout pid output) s =
     (if pid < next_pid s \<and> cp_listening (procs s pid) then onStdoutData pid output s else s)"
| "step (ChildStderr pid output) s =
     (if pid < next_pid s \<and> cp_listening (procs s pid) then onStderrData pid output s else s)"
| "step (ChildExit pid code) s =
     (if pid < next_pid s then s\<lparr>procs := (procs s)(pid := (procs s pid)\<lparr>exitCode := code\<rparr>)\<rparr>
      else s)"
| "step (ChildError pid) s =
     (if pid < next_pid s \<and> cp_listening (procs s pid) then onChildEnd pid s else s)"
| "step (ChildClose pid) s =
     (if pid < next_pid s \<and> cp_listening (procs s pid) then onChildEnd pid s else s)"
| "step DebounceFire s =
     (if statisticsDebounceTimer s
      then (broadcastStatisticsUpdate s)\<lparr>statisticsDebounceTimer := False\<rparr> else s)"
| "step IntervalFire s =
     (if statisticsInterval s then broadcastStatisticsUpdate s else s)"

definition run :: "event list \<Rightarrow> StreamManager \<Rightarrow> StreamManager" where
  "run es s = fold step es s"

text \<open>The events of the relay children, that is everything a child's exit timing decides.\<close>

fun is_child_event :: "event \<Rightarrow> bool" where
  "is_child_event (ChildStdout _ _) = True"
| "is_child_event (ChildStderr _ _) = True"
| "is_child_event (ChildExit _ _) = True"
| "is_child_event (ChildError _) = True"
| "is_child_event (ChildClose _) = True"
| "is_child_event _ = False"

text \<open>
  The destinations for which an event stores parsed statistics: those of the children
  whose stderr chunk holds a line the parser recognises.
\<close>

definition parsed_lines :: "string \<Rightarrow> string list" where
  "parsed_lines output =
     filter (\<lambda>line. (includesStr line ''frame='' \<or> includesStr line ''fps=''
                       \<or> includesStr line ''bitrate='') \<and> parseStderrLine line \<noteq> None)
            (stderrLines output)"

definition stats_update_for :: "StreamManager \<Rightarrow> event \<Rightarrow> string option" where
  "stats_update_for s e =
     (case e of
        ChildStderr pid output \<Rightarrow>
          (if pid < next_pid s \<and> cp_listening (procs s pid) \<and> parsed_lines output \<noteq> []
           then Some (cp_platformIdentifier (procs s pid)) else None)
      | _ \<Rightarrow> None)"

text \<open>The destinations that get parsed statistics stored while \<open>es\<close> runs from \<open>s\<close>.\<close>

fun updated_ids :: "StreamManager \<Rightarrow> event list \<Rightarrow> string list" where
  "updated_ids s [] = []"
| "updated_ids s (e # es) =
     (case stats_update_for s e of None \<Rightarrow> [] | Some x \<Rightarrow> [x]) @ updated_ids (step e s) es"

text \<open>
  \<open>quiet s s'\<close> says that \<open>s'\<close> has handed the WebSocket service what \<open>s\<close> had, and at
  most one status envelope more.
\<close>

definition quiet :: "StreamManager \<Rightarrow> StreamManager \<Rightarrow> bool" where
  "quiet s s' = (sent s' = sent s \<or> (\<exists>st. sent s' = sent s @ [StatusEnvelope st]))"

text \<open>
  The relay children of an identifier that are alive: spawned for it, not killed and not
  exited.
\<close>

definition live_children :: "StreamManager \<Rightarrow> string \<Rightarrow> nat list" where
  "live_children s platformIdentifier' =
     filter (\<lambda>pid. cp_platformIdentifier (procs s pid) = platformIdentifier'
                    \<and> \<not> killed (procs s pid) \<and> exitCode (procs s pid) = None)
            [0..<next_pid s]"

section \<open>RTMP ingest (stream/RTMPServer.ts)\<close>

text \<open>\<^verbatim>\<open>StreamStatus\<close> and \<^verbatim>\<open>StreamInfo\<close> (core/interfaces/IStreamProvider.ts).\<close>

datatype StreamStatus = IDLE | CONNECTING | CONNECTED | STREAMING | STREAM_ERROR | DISCONNECTED

text \<open>\<^verbatim>\<open>RTMPServerConfig\<close> (config/Config.ts); the fields carry the prefix \<open>r_\<close>.\<close>

record RTMPServerConfig =
  r_host :: string
  r_port :: real
  r_appName :: string
  r_streamKey :: string
  r_enabled :: bool

record StreamInfo =
  si_streamKey :: string
  si_rtmpUrl :: string
  si_status :: StreamStatus

text \<open>What the server emits as an \<^verbatim>\<open>EventEmitter\<close>.\<close>

datatype ingest_event =
  StatusChange StreamStatus
  | StreamingEvent nat string
  | DonePublishEvent nat string

text \<open>
  The fields of the class, prefixed \<open>rs_\<close> where the name is used elsewhere (a
  subscription is its identifier), followed by what the handlers do to their
  surroundings: \<open>rejected\<close> lists the sessions on which \<^verbatim>\<open>reject()\<close> was called, \<open>emitted\<close>
  the events emitted, and \<open>notified\<close> the calls of subscription callbacks with their
  argument; \<open>publishers\<close> is the table of the embedded protocol server that holds, by
  path, the session publishing there.
\<close>

record RTMPServer =
  rs_config :: RTMPServerConfig
  rs_streamInfo :: "StreamInfo option"
  rs_status :: StreamStatus
  rs_connected :: bool
  subscriptionCallbacks :: "string list"
  actualStreamPath :: "string option"
  rejected :: "nat list"
  emitted :: "ingest_event list"
  notified :: "(string \<times> StreamStatus) list"
  publishers :: "(string \<times> nat) list"

definition new_RTMPServer :: "RTMPServerConfig \<Rightarrow> RTMPServer" where
  "new_RTMPServer cfg =
     \<lparr>rs_config = cfg, rs_streamInfo = None, rs_status = IDLE, rs_connected = False,
      subscriptionCallbacks = [], actualStreamPath = None, rejected = [], emitted = [],
      notified = [], publishers = []\<rparr>"

definition updateConfig :: "RTMPServerConfig \<Rightarrow> RTMPServer \<Rightarrow> RTMPServer" where
  "updateConfig newConfig s = s\<lparr>rs_config := newConfig\<rparr>"

text \<open>
  The stream key of a publish path: the last of the non-empty segments of
  \<^verbatim>\<open>StreamPath.split('/')\<close>, \<^verbatim>\<open>undefined\<close> (\<open>None\<close>) when there is none.
\<close>

definition trailing_segment :: "string \<Rightarrow> string option" where
  "trailing_segment StreamPath =
     (let pathParts = filter (\<lambda>part. length part > 0) (split_on CHR ''/'' StreamPath)
      in if pathParts = [] then None else Some (last pathParts))"

text \<open>The listener of \<^verbatim>\<open>prePublish\<close>.\<close>

definition prePublish :: "nat \<Rightarrow> string \<Rightarrow> RTMPServer \<Rightarrow> RTMPServer" where
  "prePublish sid StreamPath s =
     (let streamKey = trailing_segment StreamPath
      in if r_streamKey (rs_config s) \<noteq> [] \<and> streamKey \<noteq> Some (r_streamKey (rs_config s))
         then s\<lparr>rejected := rejected s @ [sid]\<rparr>
         else s\<lparr>rs_status := CONNECTING, emitted := emitted s @ [StatusChange CONNECTING]\<rparr>)"

text \<open>
  The listener of \<^verbatim>\<open>postPublish\<close>. \<open>numToString\<close> is the conversion of a number to a
  string that the template literal of the URL applies to the port.
\<close>

definition postPublish :: "(real \<Rightarrow> string) \<Rightarrow> nat \<Rightarrow> string \<Rightarrow> RTMPServer \<Rightarrow> RTMPServer" where
  "postPublish numToString sid StreamPath s =
     (let rtmpHost = (if r_host (rs_config s) = ''0.0.0.0'' then ''localhost''
                      else r_host (rs_config s));
          rtmpUrl = ''rtmp://'' @ rtmpHost @ '':'' @ numToString (r_port (rs_config s))
                      @ StreamPath
      in s\<lparr>rs_status := STREAMING, rs_connected := True,
            actualStreamPath := Some StreamPath,
            rs_streamInfo := Some \<lparr>si_streamKey = r_streamKey (rs_config s),
                                    si_rtmpUrl = rtmpUrl, si_status = STREAMING\<rparr>,
            notified := notified s @ map (\<lambda>callback. (callback, STREAMING))
                                        (subscriptionCallbacks s),
            emitted := emitted s @ [StreamingEvent sid StreamPath, StatusChange STREAMING]\<rparr>)"

text \<open>The listener of \<^verbatim>\<open>donePublish\<close>.\<close>

definition donePublish :: "nat \<Rightarrow> string \<Rightarrow> RTMPServer \<Rightarrow> RTMPServer" where
  "donePublish sid StreamPath s =
     s\<lparr>rs_status := IDLE, actualStreamPath := None,
       rs_streamInfo := map_option (\<lambda>i. i\<lparr>si_status := IDLE\<rparr>) (rs_streamInfo s),
       emitted := emitted s @ [DonePublishEvent sid StreamPath, StatusChange IDLE]\<rparr>"

definition getStreamPath :: "RTMPServer \<Rightarrow> string" where
  "getStreamPath s =
     (if \<not> absent_or_empty (actualStreamPath s) then the (actualStreamPath s)
      else ''/'' @ r_appName (rs_config s) @ ''/'' @ r_streamKey (rs_config s))"

text \<open>
  The embedded protocol server (the package node-media-server, whose code is not part of
  this repository) handles a publish request of session \<open>sid\<close> for a path as follows. It
  emits \<^verbatim>\<open>prePublish\<close>, and a session that a listener rejected is stopped there. Else, when
  the path is being published already, the server itself rejects the session; when the
  session is publishing already, it only answers with an error; and otherwise it enters
  the session in its table and emits \<^verbatim>\<open>postPublish\<close>.
\<close>

definition publish_request :: "(real \<Rightarrow> string) \<Rightarrow> nat \<Rightarrow> string \<Rightarrow> RTMPServer \<Rightarrow> RTMPServer" where
  "publish_request numToString sid StreamPath s =
     (let s1 = prePublish sid StreamPath s
      in if sid \<in> set (rejected s1) then s1
         else if map_of (publishers s1) StreamPath \<noteq> None
           then s1\<lparr>rejected := rejected s1 @ [sid]\<rparr>
         else if sid \<in> set (map snd (publishers s1)) then s1
         else postPublish numToString sid StreamPath
                (s1\<lparr>publishers := AList.update StreamPath sid (publishers s1)\<rparr>))"

section \<open>Configuration store (config/Config.ts)\<close>

subsection \<open>The typed configuration and its schema\<close>

text \<open>
  The types that \<^verbatim>\<open>z.infer\<close> derives from the schemas. \<^verbatim>\<open>PlatformConfig\<close> and
  \<^verbatim>\<open>RTMPServerConfig\<close> are the records above; the fields of the others carry a prefix
  where the name is used elsewhere. A \<open>password\<close> is a string, \<^verbatim>\<open>null\<close> or absent.
\<close>

record OBSConfig =
  o_host :: string
  o_port :: real
  o_password :: password

record StreamManagerConfig =
  obs :: OBSConfig
  rtmpServer :: RTMPServerConfig
  c_autoReconnect :: bool
  c_reconnectDelay :: real
  c_maxReconnectAttempts :: real
  c_platforms :: "PlatformConfig list"

record UIConfig =
  u_host :: string
  u_port :: real
  u_debug :: bool

record Config =
  streamManager :: StreamManagerConfig
  ui :: UIConfig
  version :: string

text \<open>
  The schema parsers of zod: \<open>Inr\<close> the parsed value, or \<open>Inl (ZodError path)\<close> with the
  path of the first field that fails (zod collects every failing field; only whether the
  parse throws matters below). \<^verbatim>\<open>z.object\<close> accepts objects only and drops unknown
  keys; \<^verbatim>\<open>.default(d)\<close> and \<^verbatim>\<open>.optional()\<close> act on \<^verbatim>\<open>undefined\<close>; \<^verbatim>\<open>z.number()\<close> rejects
  \<^verbatim>\<open>NaN\<close>.
\<close>

definition z_string :: "string \<Rightarrow> jv \<Rightarrow> error + string" where
  "z_string path v = (case v of JStr s \<Rightarrow> Inr s | _ \<Rightarrow> Inl (ZodError path))"

definition z_number :: "string \<Rightarrow> jv \<Rightarrow> error + real" where
  "z_number path v = (case v of JNum r \<Rightarrow> Inr r | _ \<Rightarrow> Inl (ZodError path))"

definition z_boolean :: "string \<Rightarrow> jv \<Rightarrow> error + bool" where
  "z_boolean path v = (case v of JBool b \<Rightarrow> Inr b | _ \<Rightarrow> Inl (ZodError path))"

definition z_default :: "'a \<Rightarrow> (jv \<Rightarrow> error + 'a) \<Rightarrow> jv \<Rightarrow> error + 'a" where
  "z_default d p v = (if v = JUndef then Inr d else p v)"

definition z_optional :: "(jv \<Rightarrow> error + 'a) \<Rightarrow> jv \<Rightarrow> error + 'a option" where
  "z_optional p v = (if v = JUndef then Inr None else bindE (p v) (\<lambda>x. Inr (Some x)))"

definition z_password :: "string \<Rightarrow> jv \<Rightarrow> error + password" where
  "z_password path v =
     (case v of JUndef \<Rightarrow> Inr PwUndefined | JNull \<Rightarrow> Inr PwNull | JStr s \<Rightarrow> Inr (PwStr s)
      | _ \<Rightarrow> Inl (ZodError path))"

definition z_record_any :: "string \<Rightarrow> jv \<Rightarrow> error + (string \<times> jv) list" where
  "z_record_any path v = (case v of JObj kvs \<Rightarrow> Inr kvs | _ \<Rightarrow> Inl (ZodError path))"

definition OBSConfigSchema :: "string \<Rightarrow> jv \<Rightarrow> error + OBSConfig" where
  "OBSConfigSchema path v =
     (case v of
        JObj _ \<Rightarrow>
          bindE (z_default ''localhost'' (z_string (path @ ''.host'')) (getProp v ''host'')) (\<lambda>h.
          bindE (z_default 4455 (z_number (path @ ''.port'')) (getProp v ''port'')) (\<lambda>p.
          bindE (z_password (path @ ''.password'') (getProp v ''password'')) (\<lambda>pw.
          Inr \<lparr>o_host = h, o_port = p, o_password = pw\<rparr>)))
      | _ \<Rightarrow> Inl (ZodError path))"

definition RTMPServerConfigSchema :: "string \<Rightarrow> jv \<Rightarrow> error + RTMPServerConfig" where
  "RTMPServerConfigSchema path v =
     (case v of
        JObj _ \<Rightarrow>
          bindE (z_default ''localhost'' (z_string (path @ ''.host'')) (getProp v ''host'')) (\<lambda>h.
          bindE (z_default 1935 (z_number (path @ ''.port'')) (getProp v ''port'')) (\<lambda>p.
          bindE (z_default ''live'' (z_string (path @ ''.appName'')) (getProp v ''appName'')) (\<lambda>a.
          bindE (z_default ''obs'' (z_string (path @ ''.streamKey'')) (getProp v ''streamKey'')) (\<lambda>k.
          bindE (z_default True (z_boolean (path @ ''.enabled'')) (getProp v ''enabled'')) (\<lambda>e.
          Inr \<lparr>r_host = h, r_port = p, r_appName = a, r_streamKey = k, r_enabled = e\<rparr>)))))
      | _ \<Rightarrow> Inl (ZodError path))"

definition PlatformConfigSchema :: "string \<Rightarrow> jv \<Rightarrow> error + PlatformConfig" where
  "PlatformConfigSchema path v =
     (case v of
        JObj _ \<Rightarrow>
          bindE (z_optional (z_string (path @ ''.id'')) (getProp v ''id'')) (\<lambda>i.
          bindE (z_string (path @ ''.name'') (getProp v ''name'')) (\<lambda>n.
          bindE (z_optional (z_string (path @ ''.displayName'')) (getProp v ''displayName'')) (\<lambda>d.
          bindE (z_string (path @ ''.rtmpUrl'') (getProp v ''rtmpUrl'')) (\<lambda>u.
          bindE (z_string (path @ ''.streamKey'') (getProp v ''streamKey'')) (\<lambda>k.
          bindE (z_default True (z_boolean (path @ ''.enabled'')) (getProp v ''enabled'')) (\<lambda>e.
          bindE (z_default [] (z_record_any (path @ ''.metadata'')) (getProp v ''metadata'')) (\<lambda>m.
          Inr \<lparr>p_id = i, p_name = n, p_displayName = d, p_rtmpUrl = u, p_streamKey = k,
               p_enabled = e, p_metadata = m\<rparr>)))))))
      | _ \<Rightarrow> Inl (ZodError path))"

definition z_platforms :: "string \<Rightarrow> jv \<Rightarrow> error + PlatformConfig list" where
  "z_platforms path v =
     (case v of JArr xs \<Rightarrow> mapE (PlatformConfigSchema path) xs | _ \<Rightarrow> Inl (ZodError path))"

definition StreamManagerConfigSchema :: "string \<Rightarrow> jv \<Rightarrow> error + StreamManagerConfig" where
  "StreamManagerConfigSchema path v =
     (case v of
        JObj _ \<Rightarrow>
          bindE (OBSConfigSchema (path @ ''.obs'') (getProp v ''obs'')) (\<lambda>ob.
          bindE (RTMPServerConfigSchema (path @ ''.rtmpServer'') (getProp v ''rtmpServer'')) (\<lambda>rt.
          bindE (z_default True (z_boolean (path @ ''.autoReconnect''))
                   (getProp v ''autoReconnect'')) (\<lambda>ar.
          bindE (z_default 5 (z_number (path @ ''.reconnectDelay''))
                   (getProp v ''reconnectDelay'')) (\<lambda>rd.
          bindE (z_default 10 (z_number (path @ ''.maxReconnectAttempts''))
                   (getProp v ''maxReconnectAttempts'')) (\<lambda>mx.
          bindE (z_default [] (z_platforms (path @ ''.platforms'')) (getProp v ''platforms'')) (\<lambda>ps.
          Inr \<lparr>obs = ob, rtmpServer = rt, c_autoReconnect = ar, c_reconnectDelay = rd,
               c_maxReconnectAttempts = mx, c_platforms = ps\<rparr>))))))
      | _ \<Rightarrow> Inl (ZodError path))"

definition UIConfigSchema :: "string \<Rightarrow> jv \<Rightarrow> error + UIConfig" where
  "UIConfigSchema path v =
     (case v of
        JObj _ \<Rightarrow>
          bindE (z_default ''0.0.0.0'' (z_string (path @ ''.host'')) (getProp v ''host'')) (\<lambda>h.
          bindE (z_default 8000 (z_number (path @ ''.port'')) (getProp v ''port'')) (\<lambda>p.
          bindE (z_default False (z_boolean (path @ ''.debug'')) (getProp v ''debug'')) (\<lambda>d.
          Inr \<lparr>u_host = h, u_port = p, u_debug = d\<rparr>)))
      | _ \<Rightarrow> Inl (ZodError path))"

definition ConfigSchema :: "jv \<Rightarrow> error + Config" where
  "ConfigSchema v =
     (case v of
        JObj _ \<Rightarrow>
          bindE (StreamManagerConfigSchema ''streamManager'' (getProp v ''streamManager'')) (\<lambda>sm.
          bindE (UIConfigSchema ''ui'' (getProp v ''ui'')) (\<lambda>u.
          bindE (z_default ''1.0.0'' (z_string ''version'') (getProp v ''version'')) (\<lambda>ver.
          Inr \<lparr>streamManager = sm, ui = u, version = ver\<rparr>)))
      | _ \<Rightarrow> Inl (ZodError []))"

subsection \<open>Files, cache and process\<close>

text \<open>
  A file is its modification time and its text. \<open>defined_part v\<close> is the value \<open>v\<close> as a
  YAML document can hold it: without the object keys whose value is \<^verbatim>\<open>undefined\<close>, and
  with \<^verbatim>\<open>null\<close> for an \<^verbatim>\<open>undefined\<close> array element.
\<close>

record config_file =
  mtimeMs :: int
  content :: string

fun defined_part :: "jv \<Rightarrow> jv" where
  "defined_part (JObj kvs) =
     JObj (map (\<lambda>(k, v). (k, defined_part v)) (filter (\<lambda>(k, v). v \<noteq> JUndef) kvs))"
| "defined_part (JArr xs) = JArr (map (\<lambda>x. if x = JUndef then JNull else defined_part x) xs)"
| "defined_part v = v"

text \<open>
  The calls of the file system that \<^verbatim>\<open>saveConfig\<close> can make, in a log: creating a
  directory, writing a text to a file, renaming a file.
\<close>

datatype fs_op = Mkdir string | WriteFile string string | Rename string string

text \<open>
  The module's variables \<open>configCache\<close> and \<open>globalConfigPath\<close>, followed by the
  surroundings: the files by path, the paths that cannot be written, the log of
  file-system calls, the environment variables, the working directory, the two
  functions of the runtime that the code calls on strings, \<^verbatim>\<open>path.join\<close> and
  \<^verbatim>\<open>parseInt\<close> (\<open>None\<close> for \<^verbatim>\<open>NaN\<close>), and the two functions of the package yaml,
  \<^verbatim>\<open>stringify\<close> and \<^verbatim>\<open>parse\<close> (\<open>None\<close> when it throws). The package is not part of this
  repository; nothing is assumed of the two functions but what a statement says.
\<close>

record cache_entry =
  data :: Config
  timestamp :: int
  mtime :: int

record ConfigModule =
  configCache :: "cache_entry option"
  globalConfigPath :: "string option"
  files :: "(string \<times> config_file) list"
  unwritable :: "string list"
  fs_log :: "fs_op list"
  process_env :: "(string \<times> string) list"
  process_cwd :: string
  join :: "string \<Rightarrow> string \<Rightarrow> string"
  parseIntJS :: "string \<Rightarrow> real option"
  stringify :: "jv \<Rightarrow> string"
  parse :: "string \<Rightarrow> jv option"

definition CACHE_TTL :: int where
  "CACHE_TTL = 1000"

text \<open>\<^verbatim>\<open>process.env.X\<close> as a condition: set and not empty.\<close>

definition env_set :: "ConfigModule \<Rightarrow> string \<Rightarrow> bool" where
  "env_set m x = (\<not> absent_or_empty (map_of (process_env m) x))"

definition env_val :: "ConfigModule \<Rightarrow> string \<Rightarrow> string" where
  "env_val m x = (case map_of (process_env m) x of None \<Rightarrow> [] | Some v \<Rightarrow> v)"

definition setConfigPath :: "string \<Rightarrow> ConfigModule \<Rightarrow> ConfigModule" where
  "setConfigPath configPath m = m\<lparr>globalConfigPath := Some configPath, configCache := None\<rparr>"

definition invalidateConfigCache :: "ConfigModule \<Rightarrow> ConfigModule" where
  "invalidateConfigCache m = m\<lparr>configCache := None\<rparr>"

text \<open>
  The path both \<^verbatim>\<open>loadConfig\<close> and \<^verbatim>\<open>saveConfig\<close> determine first. (Both branches of the
  test for a packaged executable join the working directory and the path.)
\<close>

definition configFilePath :: "ConfigModule \<Rightarrow> string option \<Rightarrow> string" where
  "configFilePath m configPath =
     (if \<not> absent_or_empty configPath then the configPath
      else if \<not> absent_or_empty (globalConfigPath m) then the (globalConfigPath m)
      else join m (process_cwd m)
             (if env_set m ''CONFIG_PATH'' then env_val m ''CONFIG_PATH'' else ''config.yaml''))"

subsection \<open>loadConfig\<close>

text \<open>An object literal: its spreads and keys, written over one another in order.\<close>

definition object :: "(string \<times> jv) list list \<Rightarrow> jv" where
  "object parts = JObj (foldl assign [] parts)"

text \<open>\<^verbatim>\<open>o.k = v\<close> for an object \<open>o\<close>.\<close>

fun setProp :: "jv \<Rightarrow> string \<Rightarrow> jv \<Rightarrow> jv" where
  "setProp (JObj kvs) k v = JObj (AList.update k v kvs)"
| "setProp x k v = x"

text \<open>The parts of the local \<^verbatim>\<open>defaultConfig\<close>.\<close>

definition defaultOBS :: jv where
  "defaultOBS =
     JObj [(''host'', JStr ''localhost''), (''port'', JNum 4455), (''password'', JNull)]"

definition defaultRTMPServer :: jv where
  "defaultRTMPServer =
     JObj [(''host'', JStr ''localhost''), (''port'', JNum 1935), (''appName'', JStr ''live''),
           (''streamKey'', JStr ''obs''), (''enabled'', JBool True)]"

definition defaultStreamManager :: jv where
  "defaultStreamManager =
     JObj [(''obs'', defaultOBS), (''rtmpServer'', defaultRTMPServer),
           (''autoReconnect'', JBool True), (''reconnectDelay'', JNum 5),
           (''maxReconnectAttempts'', JNum 10), (''platforms'', JArr [])]"

definition defaultUI :: jv where
  "defaultUI = JObj [(''host'', JStr ''0.0.0.0''), (''port'', JNum 8000), (''debug'', JBool False)]"

definition defaultConfig :: jv where
  "defaultConfig =
     JObj [(''version'', JStr ''1.0.0''), (''streamManager'', defaultStreamManager),
           (''ui'', defaultUI)]"

text \<open>
  The callback of the \<^verbatim>\<open>map\<close> over \<^verbatim>\<open>stream_manager.platforms\<close>, for the element \<open>p\<close> at
  \<open>index\<close>; \<open>now\<close> is \<^verbatim>\<open>Date.now()\<close>. Reading \<^verbatim>\<open>p.id\<close> of \<^verbatim>\<open>null\<close> throws.
\<close>

definition convertPlatform :: "int \<Rightarrow> nat \<times> jv \<Rightarrow> error + jv" where
  "convertPlatform now ip =
     (let index = fst ip; p = snd ip
      in if p = JUndef \<or> p = JNull then Inl TypeError
         else Inr (object
                [own_props p,
                 [(''id'', js_or (getProp p ''id'')
                             (JStr (''platform_'' @ show_dec now @ ''_'' @ show_dec (int index)))),
                  (''displayName'', getProp p ''display_name''),
                  (''rtmpUrl'', getProp p ''rtmp_url''),
                  (''streamKey'', getProp p ''stream_key'')]]))"

text \<open>
  The object assigned to \<^verbatim>\<open>configData.streamManager\<close> when \<^verbatim>\<open>configData.stream_manager\<close>
  is truthy (\<open>sm\<close> is that value). A truthy \<^verbatim>\<open>platforms\<close> that is no array has no
  \<^verbatim>\<open>map\<close>, and the call throws.
\<close>

definition convertStreamManager :: "int \<Rightarrow> jv \<Rightarrow> error + jv" where
  "convertStreamManager now sm =
     (case js_or (getProp sm ''platforms'') (JArr []) of
        JArr xs \<Rightarrow>
          bindE (mapE (convertPlatform now) (zip [0..<length xs] xs)) (\<lambda>ps.
          Inr (object
            [own_props defaultStreamManager,
             own_props sm,
             [(''obs'', object [own_props defaultOBS,
                                own_props (js_or (getProp sm ''obs'') (JObj []))]),
              (''rtmpServer'',
                 (if truthy (getProp sm ''rtmp_server'')
                  then object
                         [own_props defaultRTMPServer,
                          own_props (getProp sm ''rtmp_server''),
                          [(''appName'', js_or (getProp (getProp sm ''rtmp_server'') ''app_name'')
                                            (getProp defaultRTMPServer ''appName'')),
                           (''streamKey'', js_or (getProp (getProp sm ''rtmp_server'') ''stream_key'')
                                              (getProp defaultRTMPServer ''streamKey''))]]
                  else defaultRTMPServer)),
              (''autoReconnect'', nullish (getProp sm ''auto_reconnect'')
                                    (getProp defaultStreamManager ''autoReconnect'')),
              (''reconnectDelay'', nullish (getProp sm ''reconnect_delay'')
                                     (getProp defaultStreamManager ''reconnectDelay'')),
              (''maxReconnectAttempts'', nullish (getProp sm ''max_reconnect_attempts'')
                                           (getProp defaultStreamManager ''maxReconnectAttempts'')),
              (''platforms'', JArr ps)]]))
      | _ \<Rightarrow> Inl TypeError)"

text \<open>The step from snake case to camel case.\<close>

definition snakeToCamel :: "int \<Rightarrow> jv \<Rightarrow> error + jv" where
  "snakeToCamel now configData =
     (if truthy (getProp configData ''stream_manager'')
      then bindE (convertStreamManager now (getProp configData ''stream_manager'')) (\<lambda>sm.
           Inr (JObj (AList.delete ''stream_manager''
                        (own_props (setProp configData ''streamManager'' sm)))))
      else Inr configData)"

text \<open>The step that fills in \<^verbatim>\<open>streamManager\<close>, \<^verbatim>\<open>ui\<close> and \<^verbatim>\<open>version\<close>.\<close>

definition ensureRequired :: "jv \<Rightarrow> jv" where
  "ensureRequired configData =
     (let sm = getProp configData ''streamManager'';
          c1 = setProp configData ''streamManager''
                 (if \<not> truthy sm then defaultStreamManager
                  else object
                         [own_props defaultStreamManager,
                          own_props sm,
                          [(''obs'', object [own_props defaultOBS,
                                             own_props (js_or (getProp sm ''obs'') (JObj []))]),
                           (''rtmpServer'',
                              object [own_props defaultRTMPServer,
                                      own_props (js_or (getProp sm ''rtmpServer'') (JObj []))]),
                           (''platforms'', js_or (getProp sm ''platforms'')
                                             (getProp defaultStreamManager ''platforms''))]]);
          u = getProp c1 ''ui'';
          c2 = setProp c1 ''ui''
                 (if \<not> truthy u then defaultUI else object [own_props defaultUI, own_props u]);
          c3 = (if \<not> truthy (getProp c2 ''version'')
                then setProp c2 ''version'' (getProp defaultConfig ''version'') else c2)
      in c3)"

text \<open>
  The overrides from the environment. (\<^verbatim>\<open>streamManager\<close>, its \<^verbatim>\<open>obs\<close> and \<^verbatim>\<open>ui\<close> are
  objects after the previous step, so the three \<^verbatim>\<open>|| {}\<close> of the source change nothing.)
\<close>

definition num_or_nan :: "real option \<Rightarrow> jv" where
  "num_or_nan r = (case r of None \<Rightarrow> JNaN | Some x \<Rightarrow> JNum x)"

definition setObs :: "jv \<Rightarrow> string \<Rightarrow> jv \<Rightarrow> jv" where
  "setObs configData k v =
     setProp configData ''streamManager''
       (setProp (getProp configData ''streamManager'') ''obs''
          (setProp (getProp (getProp configData ''streamManager'') ''obs'') k v))"

definition setUi :: "jv \<Rightarrow> string \<Rightarrow> jv \<Rightarrow> jv" where
  "setUi configData k v = setProp configData ''ui'' (setProp (getProp configData ''ui'') k v)"

definition envOverrides :: "ConfigModule \<Rightarrow> jv \<Rightarrow> jv" where
  "envOverrides m configData =
     (let c1 = (if env_set m ''OBS_HOST''
                then setObs configData ''host'' (JStr (env_val m ''OBS_HOST'')) else configData);
          c2 = (if env_set m ''OBS_PORT''
                then setObs c1 ''port'' (num_or_nan (parseIntJS m (env_val m ''OBS_PORT'')))
                else c1);
          c3 = (if env_set m ''OBS_PASSWORD''
                then setObs c2 ''password'' (JStr (env_val m ''OBS_PASSWORD'')) else c2);
          c4 = (if env_set m ''UI_HOST''
                then setUi c3 ''host'' (JStr (env_val m ''UI_HOST'')) else c3);
          c5 = (if env_set m ''UI_PORT''
                then setUi c4 ''port'' (num_or_nan (parseIntJS m (env_val m ''UI_PORT'')))
                else c4);
          c6 = (if env_set m ''UI_DEBUG''
                then setUi c5 ''debug'' (JBool (env_val m ''UI_DEBUG'' = ''true'')) else c5)
      in c6)"

text \<open>
  What \<^verbatim>\<open>loadConfig\<close> makes of the file once the cache is passed: the configuration it
  returns (or the error it throws) and the modification time it records. A missing file
  and a text on which \<^verbatim>\<open>parse\<close> throws give the defaults.
\<close>

definition readConfig :: "ConfigModule \<Rightarrow> int \<Rightarrow> string \<Rightarrow> (error + Config) \<times> int" where
  "readConfig m now configFile =
     (let (configData, fileMtime) =
            (case map_of (files m) configFile of
               None \<Rightarrow> (defaultConfig, 0)
             | Some f \<Rightarrow>
                 (case parse m (content f) of
                    None \<Rightarrow> (defaultConfig, mtimeMs f)
                  | Some yamlData \<Rightarrow>
                      (object [own_props defaultConfig, own_props defaultConfig,
                               own_props yamlData],
                       mtimeMs f)))
      in (bindE (snakeToCamel now configData) (\<lambda>c.
            ConfigSchema (envOverrides m (ensureRequired c))),
          fileMtime))"

text \<open>
  \<^verbatim>\<open>loadConfig\<close> at the time \<open>now\<close>: a cache entry younger than the time to live is
  returned when the file still has the recorded modification time, or is gone; else the
  file is read and, when that succeeds, the cache is set.
\<close>

definition loadConfig ::
  "ConfigModule \<Rightarrow> int \<Rightarrow> string option \<Rightarrow> (error + Config) \<times> ConfigModule" where
  "loadConfig m now configPath =
     (let configFile = configFilePath m configPath;
          hit =
            (case configCache m of
               None \<Rightarrow> None
             | Some c \<Rightarrow>
                 (case map_of (files m) configFile of
                    Some f \<Rightarrow>
                      (if mtimeMs f = mtime c \<and> now - timestamp c < CACHE_TTL
                       then Some (data c) else None)
                  | None \<Rightarrow> (if now - timestamp c < CACHE_TTL then Some (data c) else None)))
      in case hit of
           Some config \<Rightarrow> (Inr config, m)
         | None \<Rightarrow>
             (case readConfig m now configFile of
                (Inl e, _) \<Rightarrow> (Inl e, m)
              | (Inr config, fileMtime) \<Rightarrow>
                  (Inr config,
                   m\<lparr>configCache :=
                       Some \<lparr>data = config, timestamp = now, mtime = fileMtime\<rparr>\<rparr>)))"

subsection \<open>saveConfig\<close>

definition password_jv :: "password \<Rightarrow> jv" where
  "password_jv pw = (case pw of PwUndefined \<Rightarrow> JUndef | PwNull \<Rightarrow> JNull | PwStr s \<Rightarrow> JStr s)"

definition opt_jv :: "string option \<Rightarrow> jv" where
  "opt_jv x = (case x of None \<Rightarrow> JUndef | Some s \<Rightarrow> JStr s)"

text \<open>The local \<^verbatim>\<open>yamlData\<close> of \<^verbatim>\<open>saveConfig\<close>.\<close>

definition platformYaml :: "PlatformConfig \<Rightarrow> jv" where
  "platformYaml p =
     JObj [(''id'', opt_jv (p_id p)), (''name'', JStr (p_name p)),
           (''display_name'', opt_jv (p_displayName p)), (''rtmp_url'', JStr (p_rtmpUrl p)),
           (''stream_key'', JStr (p_streamKey p)), (''enabled'', JBool (p_enabled p)),
           (''metadata'', JObj (p_metadata p))]"

definition yamlData :: "Config \<Rightarrow> jv" where
  "yamlData config =
     JObj [(''version'', JStr (version config)),
           (''stream_manager'',
              JObj [(''obs'',
                       JObj [(''host'', JStr (o_host (obs (streamManager config)))),
                             (''port'', JNum (o_port (obs (streamManager config)))),
                             (''password'', password_jv (o_password (obs (streamManager config))))]),
                    (''rtmp_server'',
                       JObj [(''host'', JStr (r_host (rtmpServer (streamManager config)))),
                             (''port'', JNum (r_port (rtmpServer (streamManager config)))),
                             (''app_name'', JStr (r_appName (rtmpServer (streamManager config)))),
                             (''stream_key'', JStr (r_streamKey (rtmpServer (streamManager config)))),
                             (''enabled'', JBool (r_enabled (rtmpServer (streamManager config))))]),
                    (''auto_reconnect'', JBool (c_autoReconnect (streamManager config))),
                    (''reconnect_delay'', JNum (c_reconnectDelay (streamManager config))),
                    (''max_reconnect_attempts'',
                       JNum (c_maxReconnectAttempts (streamManager config))),
                    (''platforms'', JArr (map platformYaml (c_platforms (streamManager config))))]),
           (''ui'',
              JObj [(''host'', JStr (u_host (ui config))), (''port'', JNum (u_port (ui config))),
                    (''debug'', JBool (u_debug (ui config)))])]"

text \<open>
  \<^verbatim>\<open>saveConfig\<close> at the time \<open>now\<close>: the directory is created (a failure is ignored), the
  text that \<^verbatim>\<open>stringify\<close> makes of \<^verbatim>\<open>yamlData\<close> is written to the configuration file
  itself, and after a successful write the cache is invalidated. A write that fails
  throws, before the invalidation.
\<close>

definition saveConfig ::
  "ConfigModule \<Rightarrow> int \<Rightarrow> Config \<Rightarrow> string option \<Rightarrow> error option \<times> ConfigModule" where
  "saveConfig m now config configPath =
     (let configFile = configFilePath m configPath;
          dir = join m configFile ''..'';
          doc = stringify m (yamlData config);
          m1 = m\<lparr>fs_log := fs_log m @ [Mkdir dir, WriteFile configFile doc]\<rparr>
      in if configFile \<in> set (unwritable m) then (Some IOError, m1)
         else (None,
               invalidateConfigCache
                 (m1\<lparr>files := AList.update configFile \<lparr>mtimeMs = now, content = doc\<rparr>
                                 (files m1)\<rparr>)))"

subsection \<open>The supervisor's configuration at startup (electron/server.ts, main.ts)\<close>

text \<open>\<^verbatim>\<open>String.prototype.trim\<close>.\<close>

definition trim :: "string \<Rightarrow> string" where
  "trim s = rev (dropWhile is_space (rev (dropWhile is_space s)))"

text \<open>
  The locals \<^verbatim>\<open>platformConfigs\<close> and \<^verbatim>\<open>streamConfig\<close> of \<^verbatim>\<open>setupRegistry\<close>: the loaded
  destinations with a URL and a stream key that is not blank, and the configuration
  handed to \<^verbatim>\<open>streamManager.configure\<close>.
\<close>

definition platformConfigs :: "Config \<Rightarrow> PlatformConfig list" where
  "platformConfigs config =
     map (\<lambda>p. \<lparr>p_id = p_id p, p_name = p_name p, p_displayName = p_displayName p,
                p_rtmpUrl = p_rtmpUrl p, p_streamKey = p_streamKey p,
                p_enabled = p_enabled p, p_metadata = p_metadata p\<rparr>)
         (filter (\<lambda>p. p_rtmpUrl p \<noteq> [] \<and> p_streamKey p \<noteq> [] \<and> trim (p_streamKey p) \<noteq> [])
                 (c_platforms (streamManager config)))"

definition streamConfig :: "Config \<Rightarrow> SupervisorConfig" where
  "streamConfig config =
     \<lparr>obsHost = o_host (obs (streamManager config)),
      obsPort = o_port (obs (streamManager config)),
      obsPassword = o_password (obs (streamManager config)),
      autoReconnect = c_autoReconnect (streamManager config),
      reconnectDelay = c_reconnectDelay (streamManager config),
      maxReconnectAttempts = c_maxReconnectAttempts (streamManager config),
      platforms = platformConfigs config\<rparr>"

text \<open>
  The end of \<^verbatim>\<open>setupRegistry\<close>: the manager \<open>s\<close> that the registry resolves once its
  modules are active is configured with \<^verbatim>\<open>streamConfig\<close>. (An exception of \<^verbatim>\<open>configure\<close>
  would be caught and logged; the method throws none.)
\<close>

definition setupRegistry :: "Config \<Rightarrow> StreamManager \<Rightarrow> StreamManager" where
  "setupRegistry config s = configure s (streamConfig config)"

text \<open>
  What \<^verbatim>\<open>startServer\<close> (and likewise \<^verbatim>\<open>main\<close>) does with the configuration file
  \<open>configFile\<close> that the setup service names, at the time \<open>now\<close>: the path is set, the
  configuration is loaded from it, and \<^verbatim>\<open>setupRegistry\<close> is called with what was loaded.
  The steps in between (the check of the ports, the creation of the servers, the
  registration and activation of the modules) read the loaded configuration but
  not its destinations; they are not modelled, \<open>s\<close> being the manager they leave. The
  result is the error that \<^verbatim>\<open>loadConfig\<close> throws or the configured manager.
\<close>

definition startServer ::
  "ConfigModule \<Rightarrow> int \<Rightarrow> string \<Rightarrow> StreamManager \<Rightarrow> (error + StreamManager) \<times> ConfigModule" where
  "startServer m now configFile s =
     (case loadConfig (setConfigPath configFile m) now (Some configFile) of
        (Inl e, m1) \<Rightarrow> (Inl e, m1)
      | (Inr config, m1) \<Rightarrow> (Inr (setupRegistry config s), m1))"

subsection \<open>Predicates on configurations and on the log\<close>

text \<open>
  A destination is \<open>storable\<close> when it has a non-empty id and its metadata hold no
  \<^verbatim>\<open>undefined\<close>; a configuration is, when its
  version, the ingest's application name and stream key are not empty, the OBS password
  is not absent and its destinations are storable. \<open>no_overrides\<close> says that none of
  the six environment variables that \<^verbatim>\<open>loadConfig\<close> reads into the configuration is set.
\<close>

definition storable_platform :: "PlatformConfig \<Rightarrow> bool" where
  "storable_platform p =
     (\<not> absent_or_empty (p_id p) \<and> defined_part (JObj (p_metadata p)) = JObj (p_metadata p))"

definition storable :: "Config \<Rightarrow> bool" where
  "storable config =
     (version config \<noteq> []
      \<and> o_password (obs (streamManager config)) \<noteq> PwUndefined
      \<and> r_appName (rtmpServer (streamManager config)) \<noteq> []
      \<and> r_streamKey (rtmpServer (streamManager config)) \<noteq> []
      \<and> (\<forall>p \<in> set (c_platforms (streamManager config)). storable_platform p))"

definition no_overrides :: "ConfigModule \<Rightarrow> bool" where
  "no_overrides m =
     (\<not> env_set m ''OBS_HOST'' \<and> \<not> env_set m ''OBS_PORT'' \<and> \<not> env_set m ''OBS_PASSWORD''
      \<and> \<not> env_set m ''UI_HOST'' \<and> \<not> env_set m ''UI_PORT'' \<and> \<not> env_set m ''UI_DEBUG'')"

text \<open>The renames in a log of file-system calls, and the paths written.\<close>

definition is_rename :: "fs_op \<Rightarrow> bool" where
  "is_rename op = (case op of Rename _ _ \<Rightarrow> True | _ \<Rightarrow> False)"

definition written_paths :: "fs_op list \<Rightarrow> string list" where
  "written_paths ops = concat (map (\<lambda>op. case op of WriteFile p _ \<Rightarrow> [p] | _ \<Rightarrow> []) ops)"

section \<open>Scenarios\<close>

text \<open>Concrete destinations, configurations and runs, for the examples below.\<close>

definition destination :: "string \<Rightarrow> string \<Rightarrow> string \<Rightarrow> string \<Rightarrow> bool \<Rightarrow> PlatformConfig" where
  "destination i n u k en =
     \<lparr>p_id = Some i, p_name = n, p_displayName = None, p_rtmpUrl = u, p_streamKey = k,
      p_enabled = en, p_metadata = []\<rparr>"

definition supervisor_config :: "PlatformConfig list \<Rightarrow> SupervisorConfig" where
  "supervisor_config ps =
     \<lparr>obsHost = ''localhost'', obsPort = 4455, obsPassword = PwNull, autoReconnect = True,
      reconnectDelay = 5, maxReconnectAttempts = 10, platforms = ps\<rparr>"

definition twitch_a :: PlatformConfig where
  "twitch_a = destination ''a'' ''twitch'' ''rtmp://live.twitch.tv/app'' ''X'' True"

definition twitch_b :: PlatformConfig where
  "twitch_b = destination ''b'' ''twitch'' ''rtmp://live.twitch.tv/app'' ''Y'' True"

text \<open>Two destinations of the same name, both started.\<close>

definition two_streaming :: StreamManager where
  "two_streaming =
     run [Configure (supervisor_config [twitch_a, twitch_b]),
          StartPlatform ''a'', StartPlatform ''b'']
         (active_StreamManager ''/live/obs'')"

text \<open>A destination that is started and then, by a new configuration, disabled.\<close>

definition started_then_disabled :: StreamManager where
  "started_then_disabled =
     run [Configure (supervisor_config [twitch_a]), StartPlatform ''a'',
          Configure (supervisor_config [twitch_a\<lparr>p_enabled := False\<rparr>])]
         (active_StreamManager ''/live/obs'')"

text \<open>Two destinations, and \<^verbatim>\<open>startStream\<close> called once and twice.\<close>

definition started_once :: StreamManager where
  "started_once =
     run [Configure (supervisor_config [twitch_a, twitch_b]), StartAll]
         (active_StreamManager ''/live/obs'')"

definition started_twice :: StreamManager where
  "started_twice = snd (startStream started_once)"

definition kick_ivs :: PlatformConfig where
  "kick_ivs =
     destination ''k'' ''kick'' ''rtmps://fa723.global-contribute.live-video.net'' ''sk_abc'' True"

text \<open>Both destinations stream, and the child of \<^verbatim>\<open>a\<close> has written a statistics line.\<close>

definition a_reported :: StreamManager where
  "a_reported =
     run [ChildStderr 0 ''frame= 9 fps= 30''] two_streaming"

text \<open>The default ingest configuration, with the key \<^verbatim>\<open>obs\<close>, and one without a key.\<close>

definition ingest_config :: "string \<Rightarrow> RTMPServerConfig" where
  "ingest_config k =
     \<lparr>r_host = ''localhost'', r_port = 1935, r_appName = ''live'', r_streamKey = k,
      r_enabled = True\<rparr>"

definition subscribed_ingest :: "string \<Rightarrow> RTMPServer" where
  "subscribed_ingest k = (new_RTMPServer (ingest_config k))\<lparr>subscriptionCallbacks := [''sub1'']\<rparr>"

text \<open>A configuration with given destinations.\<close>

definition example_config :: "PlatformConfig list \<Rightarrow> Config" where
  "example_config ps =
     \<lparr>streamManager =
        \<lparr>obs = \<lparr>o_host = ''localhost'', o_port = 4455, o_password = PwNull\<rparr>,
         rtmpServer = ingest_config ''obs'',
         c_autoReconnect = False, c_reconnectDelay = 5, c_maxReconnectAttempts = 10,
         c_platforms = ps\<rparr>,
      ui = \<lparr>u_host = ''0.0.0.0'', u_port = 8000, u_debug = False\<rparr>,
      version = ''1.0.0''\<rparr>"

text \<open>
  YAML texts, line by line. \<open>config_text\<close> is the text of \<open>example_config\<close> around the
  lines of its destinations; the three blocks after it are the destinations \<^verbatim>\<open>a\<close> and
  \<^verbatim>\<open>k\<close> from above and \<^verbatim>\<open>a\<close> without its id.
\<close>

definition unlines :: "string list \<Rightarrow> string" where
  "unlines ls = concat (map (\<lambda>l. l @ [CHR 0x0A]) ls)"

definition config_text :: "string list \<Rightarrow> string" where
  "config_text destinations =
     unlines
       ([''version: 1.0.0'',
         ''stream_manager:'',
         ''  obs:'',
         ''    host: localhost'',
         ''    port: 4455'',
         ''    password: null'',
         ''  rtmp_server:'',
         ''    host: localhost'',
         ''    port: 1935'',
         ''    app_name: live'',
         ''    stream_key: obs'',
         ''    enabled: true'',
         ''  auto_reconnect: false'',
         ''  reconnect_delay: 5'',
         ''  max_reconnect_attempts: 10'',
         ''  platforms:'']
        @ destinations
        @ [''ui:'',
           ''  host: 0.0.0.0'',
           ''  port: 8000'',
           ''  debug: false''])"

definition twitch_a_lines :: "string list" where
  "twitch_a_lines =
     [''    - id: a'',
      ''      name: twitch'',
      ''      rtmp_url: rtmp://live.twitch.tv/app'',
      ''      stream_key: X'',
      ''      enabled: true'',
      ''      metadata: {}'']"

definition kick_ivs_lines :: "string list" where
  "kick_ivs_lines =
     [''    - id: k'',
      ''      name: kick'',
      ''      rtmp_url: rtmps://fa723.global-contribute.live-video.net'',
      ''      stream_key: sk_abc'',
      ''      enabled: true'',
      ''      metadata: {}'']"

definition twitch_no_id_lines :: "string list" where
  "twitch_no_id_lines =
     [''    - name: twitch'',
      ''      rtmp_url: rtmp://live.twitch.tv/app'',
      ''      stream_key: X'',
      ''      enabled: true'',
      ''      metadata: {}'']"

text \<open>
  A file written by hand, with three destinations: \<^verbatim>\<open>a\<close> as above, \<^verbatim>\<open>b\<close> with an empty
  URL and \<^verbatim>\<open>c\<close> with a blank stream key; and the document it denotes.
\<close>

definition three_stored_text :: string where
  "three_stored_text =
     unlines
       [''stream_manager:'',
        ''  platforms:'',
        ''    - id: a'',
        ''      name: twitch'',
        ''      rtmp_url: rtmp://live.twitch.tv/app'',
        ''      stream_key: X'',
        ''    - id: b'',
        ''      name: twitch'',
        ''      rtmp_url: '' @ [CHR 0x22, CHR 0x22],
        ''      stream_key: kb'',
        ''    - id: c'',
        ''      name: twitch'',
        ''      rtmp_url: rtmp://live.twitch.tv/app'',
        ''      stream_key: '' @ [CHR 0x22, CHR 0x20, CHR 0x22]]"

definition three_stored_doc :: jv where
  "three_stored_doc =
     JObj [(''stream_manager'',
            JObj [(''platforms'',
                   JArr [JObj [(''id'', JStr ''a''), (''name'', JStr ''twitch''),
                               (''rtmp_url'', JStr ''rtmp://live.twitch.tv/app''),
                               (''stream_key'', JStr ''X'')],
                         JObj [(''id'', JStr ''b''), (''name'', JStr ''twitch''),
                               (''rtmp_url'', JStr []), (''stream_key'', JStr ''kb'')],
                         JObj [(''id'', JStr ''c''), (''name'', JStr ''twitch''),
                               (''rtmp_url'', JStr ''rtmp://live.twitch.tv/app''),
                               (''stream_key'', JStr '' '')]])])]"

text \<open>
  The texts of the examples with the documents they denote, and a stand-in for the
  package yaml that knows these and nothing else: \<open>stringify\<close> writes the text of a
  document of the table (the empty text for any other), \<open>parse\<close> reads a text of the
  table (and throws on any other).
\<close>

definition yaml_texts :: "(string \<times> jv) list" where
  "yaml_texts =
     [(config_text twitch_a_lines, defined_part (yamlData (example_config [twitch_a]))),
      (config_text (twitch_a_lines @ kick_ivs_lines),
       defined_part (yamlData (example_config [twitch_a, kick_ivs]))),
      (config_text twitch_no_id_lines,
       defined_part (yamlData (example_config [twitch_a\<lparr>p_id := None\<rparr>]))),
      (three_stored_text, three_stored_doc)]"

definition table_stringify :: "jv \<Rightarrow> string" where
  "table_stringify v =
     (case find (\<lambda>entry. snd entry = defined_part v) yaml_texts of
        None \<Rightarrow> [] | Some entry \<Rightarrow> fst entry)"

text \<open>
  A configuration module without cache, files or environment variables, and one whose
  file holds the three destinations.
\<close>

definition plain_module :: ConfigModule where
  "plain_module =
     \<lparr>configCache = None, globalConfigPath = None, files = [], unwritable = [],
      fs_log = [], process_env = [], process_cwd = ''/srv'',
      join = (\<lambda>a b. a @ ''/'' @ b), parseIntJS = (\<lambda>_. None),
      stringify = table_stringify, parse = map_of yaml_texts\<rparr>"

definition three_stored :: ConfigModule where
  "three_stored =
     plain_module\<lparr>files := [(''/etc/c.yaml'', \<lparr>mtimeMs = 900, content = three_stored_text\<rparr>)]\<rparr>"

text \<open>What \<^verbatim>\<open>loadConfig\<close> makes of that file: the three destinations, and the defaults.\<close>

definition three_loaded :: Config where
  "three_loaded =
     (example_config
        [twitch_a,
         destination ''b'' ''twitch'' [] ''kb'' True,
         destination ''c'' ''twitch'' ''rtmp://live.twitch.tv/app'' '' '' True])
       \<lparr>streamManager :=
          (streamManager
             (example_config
                [twitch_a,
                 destination ''b'' ''twitch'' [] ''kb'' True,
                 destination ''c'' ''twitch'' ''rtmp://live.twitch.tv/app'' '' '' True]))
            \<lparr>c_autoReconnect := True\<rparr>\<rparr>"

section \<open>Properties\<close>

subsection \<open>Lifecycle transitions\<close>

text \<open>
  Claim C9. For each of the eight transition methods and each lifecycle object: when the
  current state is not one the method's guard permits, the call throws an error whose
  message names the current state (the state-mismatch error) and the stored state (the
  whole object) is unchanged; when it is permitted, the call throws nothing and stores
  the method's target state. \<open>markError\<close> never throws and stores \<open>ERROR\<close> from any state.
\<close>

theorem lifecycle_transitions_guarded:
  "(state l \<notin> set (permitted_from t) \<longrightarrow>
      is_state_mismatch (fst (mark t l)) (state l) \<and> snd (mark t l) = l)
   \<and> (state l \<in> set (permitted_from t) \<longrightarrow>
      mark t l = (None, l\<lparr>state := target t\<rparr>))
   \<and> markError l = (None, l\<lparr>state := ERROR\<rparr>)"
  by (cases t; cases "state l")
     (simp_all add: markInitializing_def markInitialized_def markActivating_def
        markActive_def markDeactivating_def markDeactivated_def markDestroying_def
        markDestroyed_def markError_def canInitialize_def canActivate_def
        canDeactivate_def canDestroy_def is_state_mismatch_def suffix_def)

theorem lifecycle_transitions_guarded_witness:
  "is_state_mismatch (fst (mark MarkActive (new_ModuleLifecycle ''m''))) CREATED
   \<and> snd (mark MarkActive (new_ModuleLifecycle ''m'')) = new_ModuleLifecycle ''m''
   \<and> mark MarkInitializing (new_ModuleLifecycle ''m'')
       = (None, \<lparr>state = INITIALIZING, moduleName = ''m''\<rparr>)"
  using lifecycle_transitions_guarded [of "new_ModuleLifecycle ''m''" MarkActive]
        lifecycle_transitions_guarded [of "new_ModuleLifecycle ''m''" MarkInitializing]
  by (simp add: new_ModuleLifecycle_def)

subsection \<open>Telemetry parser\<close>

lemma first_some_SomeD: "first_some rs = Some r \<Longrightarrow> Some r \<in> set rs"
  by (induction rs rule: first_some.induct) auto

lemma first_some_not_None: "x \<in> set rs \<Longrightarrow> x \<noteq> None \<Longrightarrow> first_some rs \<noteq> None"
  by (induction rs rule: first_some.induct) auto

text \<open>A pattern can only match where each of its prefixes matches.\<close>

lemma bt_append_prefix:
  "bt (as @ bs) s os cs \<noteq> None \<Longrightarrow> bt as s os cs \<noteq> None"
proof (induction as s os cs rule: bt.induct)
  case (5 c lo hi greedy as s os cs)
  define ks where "ks = (let avail = length (takeWhile (cls_mem c) s);
          top = (case hi of None \<Rightarrow> avail | Some h \<Rightarrow> min h avail)
      in (if greedy then rev [lo..<Suc top] else [lo..<Suc top]))"
  from "5.prems" obtain r
    where r: "first_some (map (\<lambda>k. bt (as @ bs) (drop k s) os cs) ks) = Some r"
    by (auto simp: ks_def Let_def)
  then obtain k where k: "k \<in> set ks" "bt (as @ bs) (drop k s) os cs = Some r"
    by (auto dest!: first_some_SomeD)
  have "bt as (drop k s) os cs \<noteq> None"
    using "5.IH"[of "length (takeWhile (cls_mem c) s)" _ "ks" k] k
    by (auto simp: ks_def Let_def)
  then have "first_some (map (\<lambda>k. bt as (drop k s) os cs) ks) \<noteq> None"
    using k(1) first_some_not_None[of "bt as (drop k s) os cs"
                 "map (\<lambda>k. bt as (drop k s) os cs) ks"]
    by auto
  then show ?case by (simp add: ks_def Let_def)
qed (auto split: option.splits if_splits)

lemma search_append_prefix:
  "search (as @ bs) s \<noteq> None \<Longrightarrow> search as s \<noteq> None"
proof (induction s)
  case Nil
  then show ?case using bt_append_prefix[of as bs "[]" "[]" "[]"] by auto
next
  case (Cons c s)
  then show ?case using bt_append_prefix[of as bs "c # s" "[]" "[]"]
    by (auto split: option.splits)
qed

lemma STATS_extends_FRAME: "\<exists>rest. STATS_REGEX = FRAME_REGEX @ rest"
  by (simp add: STATS_REGEX_def FRAME_REGEX_def)

lemma no_frame_no_stats:
  "search FRAME_REGEX line = None \<Longrightarrow> search STATS_REGEX line = None"
proof -
  assume nf: "search FRAME_REGEX line = None"
  obtain rest where "STATS_REGEX = FRAME_REGEX @ rest"
    using STATS_extends_FRAME by blast
  then have "search STATS_REGEX line \<noteq> None \<Longrightarrow> search FRAME_REGEX line \<noteq> None"
    using search_append_prefix[of FRAME_REGEX rest line] by simp
  with nf show ?thesis by blast
qed

text \<open>
  Claim C10. \<open>parseStderrLine\<close> returns \<^verbatim>\<open>null\<close> exactly when none of the frame, fps,
  bitrate and time patterns matches the line; whether the resolution or the codec pattern
  matches plays no part. So a line carrying only a resolution or a codec gives \<^verbatim>\<open>null\<close>,
  and these two fields only ever appear in a result that has a numeric metric.
\<close>

theorem parseStderrLine_null_iff_no_metric:
  "(parseStderrLine line = None) =
     (search FRAME_REGEX line = None \<and> search FPS_REGEX line = None
      \<and> search BITRATE_REGEX line = None \<and> search TIME_REGEX line = None)"
proof (cases "search FRAME_REGEX line")
  case None
  then have "search STATS_REGEX line = None" by (rule no_frame_no_stats)
  with None show ?thesis
    by (simp add: parseStderrLine_def Let_def split: option.splits)
next
  case (Some m)
  then show ?thesis
    by (simp add: parseStderrLine_def Let_def split: option.splits)
qed

theorem parseStderrLine_null_iff_no_metric_witness:
  "parseStderrLine ''Stream #0:0: Video: h264, 1920x1080'' = None
   \<and> search RESOLUTION_REGEX ''Stream #0:0: Video: h264, 1920x1080'' = Some [(1, ''1920x1080'')]
   \<and> search CODEC_REGEX ''Stream #0:0: Video: h264, 1920x1080'' = Some [(1, ''h264'')]"
proof -
  have "search FRAME_REGEX ''Stream #0:0: Video: h264, 1920x1080'' = None"
    by (simp add: FRAME_REGEX_def)
  moreover have "search FPS_REGEX ''Stream #0:0: Video: h264, 1920x1080'' = None"
    by (simp add: FPS_REGEX_def)
  moreover have "search BITRATE_REGEX ''Stream #0:0: Video: h264, 1920x1080'' = None"
    by (simp add: BITRATE_REGEX_def)
  moreover have "search TIME_REGEX ''Stream #0:0: Video: h264, 1920x1080'' = None"
    by (simp add: TIME_REGEX_def)
  ultimately have "parseStderrLine ''Stream #0:0: Video: h264, 1920x1080'' = None"
    using parseStderrLine_null_iff_no_metric [of "''Stream #0:0: Video: h264, 1920x1080''"]
    by simp
  moreover have
    "search RESOLUTION_REGEX ''Stream #0:0: Video: h264, 1920x1080'' = Some [(1, ''1920x1080'')]"
    by code_simp
  moreover have
    "search CODEC_REGEX ''Stream #0:0: Video: h264, 1920x1080'' = Some [(1, ''h264'')]"
    by code_simp
  ultimately show ?thesis by simp
qed

subsection \<open>Relay supervisor: statistics envelopes\<close>

lemma broadcastStatus_fields [simp]:
  "platformStreamStates (broadcastStatus s) = platformStreamStates s"
  "statisticsChanged (broadcastStatus s) = statisticsChanged s"
  "ffmpegProcesses (broadcastStatus s) = ffmpegProcesses s"
  "sm_config (broadcastStatus s) = sm_config s"
  "procs (broadcastStatus s) = procs s"
  "next_pid (broadcastStatus s) = next_pid s"
  "wsService (broadcastStatus s) = wsService s"
  "platformConfigMap (broadcastStatus s) = platformConfigMap s"
  by (simp_all add: broadcastStatus_def)

lemma rebuildPlatformConfigMap_fields [simp]:
  "platformStreamStates (rebuildPlatformConfigMap s) = platformStreamStates s"
  "statisticsChanged (rebuildPlatformConfigMap s) = statisticsChanged s"
  "ffmpegProcesses (rebuildPlatformConfigMap s) = ffmpegProcesses s"
  "sm_config (rebuildPlatformConfigMap s) = sm_config s"
  "procs (rebuildPlatformConfigMap s) = procs s"
  "next_pid (rebuildPlatformConfigMap s) = next_pid s"
  "sent (rebuildPlatformConfigMap s) = sent s"
  "sm_streamProvider (rebuildPlatformConfigMap s) = sm_streamProvider s"
  "platformAdapters (rebuildPlatformConfigMap s) = platformAdapters s"
  by (simp_all add: rebuildPlatformConfigMap_def split: option.splits)

lemma getPlatformConfig_fields [simp]:
  "platformStreamStates (snd (getPlatformConfig s x)) = platformStreamStates s"
  "statisticsChanged (snd (getPlatformConfig s x)) = statisticsChanged s"
  "ffmpegProcesses (snd (getPlatformConfig s x)) = ffmpegProcesses s"
  "sm_config (snd (getPlatformConfig s x)) = sm_config s"
  "procs (snd (getPlatformConfig s x)) = procs s"
  "next_pid (snd (getPlatformConfig s x)) = next_pid s"
  "sent (snd (getPlatformConfig s x)) = sent s"
  "sm_streamProvider (snd (getPlatformConfig s x)) = sm_streamProvider s"
  "platformAdapters (snd (getPlatformConfig s x)) = platformAdapters s"
  by (simp_all add: getPlatformConfig_def Let_def)

lemma startPlatformStreamInternal_fields [simp]:
  "platformStreamStates (snd (startPlatformStreamInternal s pc i inp)) = platformStreamStates s"
  "statisticsChanged (snd (startPlatformStreamInternal s pc i inp)) = statisticsChanged s"
  "sm_config (snd (startPlatformStreamInternal s pc i inp)) = sm_config s"
  by (simp_all add: startPlatformStreamInternal_def Let_def split: option.splits)

lemma startPlatformStream_try_changed [simp]:
  "statisticsChanged (snd (startPlatformStream_try s a pc i)) = statisticsChanged s"
  by (simp add: startPlatformStream_try_def Let_def case_prod_unfold split: option.splits)

lemma startPlatformStream_changed [simp]:
  "statisticsChanged (snd (startPlatformStream s x)) = statisticsChanged s"
  by (simp add: startPlatformStream_def Let_def case_prod_unfold split: option.splits)

lemma stopPlatformStream_changed:
  "set (statisticsChanged (snd (stopPlatformStream s x))) \<subseteq> set (statisticsChanged s)"
  by (auto simp: stopPlatformStream_def Let_def case_prod_unfold split: option.splits)

lemma startStream_configs_changed [simp]:
  "statisticsChanged (fst (snd (startStream_configs a inp pcs s succ))) = statisticsChanged s"
proof (induction pcs arbitrary: s succ)
  case Nil
  then show ?case by simp
next
  case (Cons pc pcs)
  obtain e s1 where r: "startPlatformStreamInternal s pc (platformIdentifier pc) inp = (e, s1)"
    by force
  then have s1: "statisticsChanged s1 = statisticsChanged s"
    using startPlatformStreamInternal_fields(2)[of s pc "platformIdentifier pc" inp] by simp
  show ?case
    using r s1 Cons.IH by (cases e) (simp_all add: Let_def)
qed

lemma startStream_adapters_changed [simp]:
  "statisticsChanged (fst (startStream_adapters cfg inp as s succ failed)) = statisticsChanged s"
proof (induction as arbitrary: s succ failed)
  case Nil
  then show ?case by simp
next
  case (Cons na as)
  obtain n a where na: "na = (n, a)" by force
  obtain threw s1 succ1
    where r: "startStream_configs a inp (filter (\<lambda>p. p_name p = n \<and> p_enabled p) (platforms cfg))
                s succ = (threw, s1, succ1)"
    using prod_cases3 by blast
  then have s1: "statisticsChanged s1 = statisticsChanged s"
    by (metis fst_conv snd_conv startStream_configs_changed)
  show ?case
    using na r s1 Cons.IH by (simp add: Let_def)
qed

lemma startStream_changed [simp]:
  "statisticsChanged (snd (startStream s)) = statisticsChanged s"
  by (simp add: startStream_def Let_def case_prod_unfold split: option.splits)

lemma stopStream_fold_changed:
  "statisticsChanged
     (fold (\<lambda>(i, pid) s1.
              s1\<lparr>procs := (procs s1)(pid := kill (procs s1 pid)),
                 ffmpegProcesses := AList.delete i (ffmpegProcesses s1),
                 platformStreamStates := AList.update i off (platformStreamStates s1)\<rparr>) xs s)
   = statisticsChanged s"
  by (induction xs arbitrary: s) (simp_all add: case_prod_unfold)

lemma stopStream_changed [simp]:
  "statisticsChanged (stopStream s) = statisticsChanged s"
  by (simp add: stopStream_def stopStream_fold_changed)

lemma stderrLine_changed:
  "set (statisticsChanged (stderrLine i line s))
     \<subseteq> set (statisticsChanged s)
        \<union> (if (includesStr line ''frame='' \<or> includesStr line ''fps=''
                  \<or> includesStr line ''bitrate='') \<and> parseStderrLine line \<noteq> None
            then {i} else {})"
  by (auto simp: stderrLine_def scheduleStatisticsBroadcast_def set_add_def split: option.splits)

lemma fold_stderrLine_changed:
  "set (statisticsChanged (fold (stderrLine i) ls s))
     \<subseteq> set (statisticsChanged s)
        \<union> (if filter (\<lambda>line. (includesStr line ''frame='' \<or> includesStr line ''fps=''
                       \<or> includesStr line ''bitrate='') \<and> parseStderrLine line \<noteq> None) ls \<noteq> []
            then {i} else {})"
proof (induction ls arbitrary: s)
  case Nil
  then show ?case by simp
next
  case (Cons l ls)
  show ?case
    using Cons.IH[of "stderrLine i l s"] stderrLine_changed[of i l s]
    by (auto split: if_splits)
qed

lemma onStderrData_changed:
  "set (statisticsChanged (onStderrData pid out s))
     \<subseteq> set (statisticsChanged s)
        \<union> (if parsed_lines out \<noteq> [] then {cp_platformIdentifier (procs s pid)} else {})"
proof -
  let ?p = "procs s pid"
  let ?n = "stderrBufferSize ?p + int (length out)"
  let ?s1 = "s\<lparr>procs := (procs s)
                 (pid := ?p\<lparr>stderrBufferSize := (if ?n > maxBufferResetSize then 0 else ?n)\<rparr>)\<rparr>"
  have "statisticsChanged ?s1 = statisticsChanged s" by simp
  then show ?thesis
    using fold_stderrLine_changed[of "cp_platformIdentifier ?p" "stderrLines out" ?s1]
    by (simp add: onStderrData_def Let_def parsed_lines_def)
qed

lemma broadcastStatisticsUpdate_changed:
  "set (statisticsChanged (broadcastStatisticsUpdate s)) \<subseteq> set (statisticsChanged s)"
  by (simp add: broadcastStatisticsUpdate_def Let_def)

lemma step_changed:
  "set (statisticsChanged (step e s))
     \<subseteq> set (statisticsChanged s) \<union> set_option (stats_update_for s e)"
proof (cases e)
  case (StopPlatform x)
  then show ?thesis using stopPlatformStream_changed[of s x] by (auto simp: stats_update_for_def)
next
  case (ChildStderr pid out)
  then show ?thesis using onStderrData_changed[of pid out s]
    by (auto simp: stats_update_for_def split: if_splits)
next
  case DebounceFire
  then show ?thesis using broadcastStatisticsUpdate_changed[of s]
    by (auto simp: stats_update_for_def)
next
  case IntervalFire
  then show ?thesis using broadcastStatisticsUpdate_changed[of s]
    by (auto simp: stats_update_for_def)
qed (auto simp: stats_update_for_def configure_def onStdoutData_def onChildEnd_def Let_def)


lemma run_Cons [simp]: "run (e # es) s = run es (step e s)"
  by (simp add: run_def)

lemma run_Nil [simp]: "run [] s = s"
  by (simp add: run_def)

lemma run_changed:
  "set (statisticsChanged (run es s)) \<subseteq> set (statisticsChanged s) \<union> set (updated_ids s es)"
proof (induction es arbitrary: s)
  case Nil
  then show ?case by simp
next
  case (Cons e es)
  show ?case
    using Cons.IH[of "step e s"] step_changed[of e s]
    by (auto split: option.splits)
qed

text \<open>An event other than a timer expiry appends a status envelope or nothing.\<close>

lemma quiet_refl [simp]: "quiet s s"
  by (simp add: quiet_def)

lemma quiet_broadcastStatus: "sent s1 = sent s \<Longrightarrow> quiet s (broadcastStatus s1)"
  by (simp add: quiet_def broadcastStatus_def)

lemma startPlatformStreamInternal_sent [simp]:
  "sent (snd (startPlatformStreamInternal s pc i inp)) = sent s"
  by (simp add: startPlatformStreamInternal_def Let_def split: option.splits)

lemma startPlatformStream_try_quiet: "quiet s (snd (startPlatformStream_try s a pc i))"
  by (auto simp: startPlatformStream_try_def Let_def case_prod_unfold quiet_def
                 broadcastStatus_def
           split: option.splits)

lemma quiet_trans_same: "sent s1 = sent s \<Longrightarrow> quiet s1 s2 \<Longrightarrow> quiet s s2"
  by (simp add: quiet_def)

lemma quiet_upd_states: "quiet s s1 \<Longrightarrow> quiet s (s1\<lparr>platformStreamStates := x\<rparr>)"
  by (simp add: quiet_def)

lemma startPlatformStream_quiet: "quiet s (snd (startPlatformStream s x))"
proof -
  have q: "\<And>a pc i. quiet s (snd (startPlatformStream_try (snd (getPlatformConfig s x)) a pc i))"
    by (rule quiet_trans_same[OF _ startPlatformStream_try_quiet]) simp
  have g: "quiet s (snd (getPlatformConfig s x))"
    by (simp add: quiet_def)
  show ?thesis
    using q g
    by (auto simp: startPlatformStream_def Let_def case_prod_unfold
             split: option.splits intro!: quiet_upd_states)
qed

lemma stopPlatformStream_quiet: "quiet s (snd (stopPlatformStream s x))"
proof -
  have g: "quiet s (snd (getPlatformConfig s x))"
    by (simp add: quiet_def)
  show ?thesis
    using g
    by (auto simp: stopPlatformStream_def Let_def case_prod_unfold
             split: option.splits intro!: quiet_broadcastStatus)
qed

lemma startStream_configs_sent [simp]:
  "sent (fst (snd (startStream_configs a inp pcs s succ))) = sent s"
proof (induction pcs arbitrary: s succ)
  case Nil
  then show ?case by simp
next
  case (Cons pc pcs)
  obtain e s1 where r: "startPlatformStreamInternal s pc (platformIdentifier pc) inp = (e, s1)"
    by force
  then have s1: "sent s1 = sent s"
    using startPlatformStreamInternal_sent[of s pc "platformIdentifier pc" inp] by simp
  show ?case
    using r s1 Cons.IH by (cases e) (simp_all add: Let_def)
qed

lemma startStream_adapters_sent [simp]:
  "sent (fst (startStream_adapters cfg inp as s succ failed)) = sent s"
proof (induction as arbitrary: s succ failed)
  case Nil
  then show ?case by simp
next
  case (Cons na as)
  obtain n a where na: "na = (n, a)" by force
  obtain threw s1 succ1
    where r: "startStream_configs a inp (filter (\<lambda>p. p_name p = n \<and> p_enabled p) (platforms cfg))
                s succ = (threw, s1, succ1)"
    using prod_cases3 by blast
  then have s1: "sent s1 = sent s"
    by (metis fst_conv snd_conv startStream_configs_sent)
  show ?case
    using na r s1 Cons.IH by (simp add: Let_def)
qed

lemma startStream_sent [simp]: "sent (snd (startStream s)) = sent s"
  by (simp add: startStream_def Let_def case_prod_unfold split: option.splits)

lemma stopStream_fold_sent:
  "sent
     (fold (\<lambda>(i, pid) s1.
              s1\<lparr>procs := (procs s1)(pid := kill (procs s1 pid)),
                 ffmpegProcesses := AList.delete i (ffmpegProcesses s1),
                 platformStreamStates := AList.update i off (platformStreamStates s1)\<rparr>) xs s)
   = sent s"
  by (induction xs arbitrary: s) (simp_all add: case_prod_unfold)

lemma stopStream_sent [simp]: "sent (stopStream s) = sent s"
  by (simp add: stopStream_def stopStream_fold_sent)

lemma stderrLine_sent [simp]: "sent (stderrLine i line s) = sent s"
  by (simp add: stderrLine_def scheduleStatisticsBroadcast_def split: option.splits)

lemma fold_stderrLine_sent [simp]: "sent (fold (stderrLine i) ls s) = sent s"
  by (induction ls arbitrary: s) simp_all

lemma onStderrData_sent [simp]: "sent (onStderrData pid out s) = sent s"
  by (simp add: onStderrData_def Let_def)

lemma onChildEnd_quiet: "quiet s (onChildEnd pid s)"
  by (auto simp: onChildEnd_def Let_def intro!: quiet_broadcastStatus)

text \<open>Only the expiry of a timer hands a statistics envelope to the service.\<close>

lemma statistics_envelope_from_timer:
  assumes "sent (step f s) = sent s @ [StatisticsEnvelope env]"
  shows "sent (broadcastStatisticsUpdate s) = sent s @ [StatisticsEnvelope env]
         \<and> statisticsChanged (step f s) = statisticsChanged (broadcastStatisticsUpdate s)"
proof (cases f)
  case (Configure cfg)
  with assms show ?thesis by (simp add: configure_def)
next
  case (StartPlatform x)
  with assms startPlatformStream_quiet[of s x] show ?thesis by (auto simp: quiet_def)
next
  case (StopPlatform x)
  with assms stopPlatformStream_quiet[of s x] show ?thesis by (auto simp: quiet_def)
next
  case StartAll
  with assms show ?thesis by simp
next
  case StopAll
  with assms show ?thesis by simp
next
  case (ChildStdout pid out)
  with assms show ?thesis by (simp add: onStdoutData_def Let_def split: if_splits)
next
  case (ChildStderr pid out)
  with assms show ?thesis by (simp split: if_splits)
next
  case (ChildExit pid code)
  with assms show ?thesis by (simp split: if_splits)
next
  case (ChildError pid)
  with assms onChildEnd_quiet[of s pid] show ?thesis by (auto simp: quiet_def split: if_splits)
next
  case (ChildClose pid)
  with assms onChildEnd_quiet[of s pid] show ?thesis by (auto simp: quiet_def split: if_splits)
next
  case DebounceFire
  with assms show ?thesis by (simp split: if_splits)
next
  case IntervalFire
  with assms show ?thesis by (simp split: if_splits)
qed

lemma broadcast_emission:
  assumes "sent (broadcastStatisticsUpdate s) = sent s @ [StatisticsEnvelope env]"
  shows "statisticsChanged (broadcastStatisticsUpdate s) = []"
    and "ss_platformId ` set env \<subseteq> set (statisticsChanged s)"
  using assms
  by (auto simp: broadcastStatisticsUpdate_def Let_def statisticsEntry_def
           split: if_splits option.splits)

text \<open>
  Claim C7. Take any two emissions of a statistics envelope, the first by the event \<open>f1\<close>
  in state \<open>s\<close>, the second by \<open>f2\<close> after the events \<open>es\<close> that follow the first. Every
  destination in the second envelope has had a parsed statistics line stored by a stderr
  event of \<open>es\<close>, that is since the first emission: the changed set is empty after an
  emission, only a parsed stderr line adds to it, and an envelope holds changed
  destinations only. In particular a destination with no update in between is in no two
  consecutive envelopes.
\<close>

theorem statistics_envelope_only_changed:
  assumes e1: "sent (step f1 s) = sent s @ [StatisticsEnvelope env1]"
    and e2: "sent (step f2 (run es (step f1 s)))
               = sent (run es (step f1 s)) @ [StatisticsEnvelope env2]"
    and x: "x \<in> ss_platformId ` set env2"
  shows "x \<in> set (updated_ids (step f1 s) es)"
proof -
  have "statisticsChanged (step f1 s) = []"
    using statistics_envelope_from_timer[OF e1] broadcast_emission(1) by simp
  moreover have "x \<in> set (statisticsChanged (run es (step f1 s)))"
    using statistics_envelope_from_timer[OF e2] broadcast_emission(2) x by blast
  ultimately show ?thesis
    using run_changed[of es "step f1 s"] by auto
qed

theorem statistics_envelope_only_changed_witness:
  "sent (step DebounceFire a_reported)
     = sent a_reported
       @ [StatisticsEnvelope
            [\<lparr>ss_platformId = ''a'', ss_platformName = ''twitch'', ss_bitrate = None,
              ss_fps = Some (Num 30), ss_resolution = None, ss_codec = None,
              ss_status = ''streaming'', ss_uptime = None, ss_errors = 0\<rparr>]]
   \<and> sent (step IntervalFire (run [ChildStderr 1 ''fps= 25''] (step DebounceFire a_reported)))
     = sent (run [ChildStderr 1 ''fps= 25''] (step DebounceFire a_reported))
       @ [StatisticsEnvelope
            [\<lparr>ss_platformId = ''b'', ss_platformName = ''twitch'', ss_bitrate = None,
              ss_fps = Some (Num 25), ss_resolution = None, ss_codec = None,
              ss_status = ''streaming'', ss_uptime = None, ss_errors = 0\<rparr>]]
   \<and> ''b'' \<in> set (updated_ids (step DebounceFire a_reported) [ChildStderr 1 ''fps= 25''])"
proof -
  have e1: "sent (step DebounceFire a_reported)
     = sent a_reported
       @ [StatisticsEnvelope
            [\<lparr>ss_platformId = ''a'', ss_platformName = ''twitch'', ss_bitrate = None,
              ss_fps = Some (Num 30), ss_resolution = None, ss_codec = None,
              ss_status = ''streaming'', ss_uptime = None, ss_errors = 0\<rparr>]]"
    by code_simp
  have e2: "sent (step IntervalFire (run [ChildStderr 1 ''fps= 25''] (step DebounceFire a_reported)))
     = sent (run [ChildStderr 1 ''fps= 25''] (step DebounceFire a_reported))
       @ [StatisticsEnvelope
            [\<lparr>ss_platformId = ''b'', ss_platformName = ''twitch'', ss_bitrate = None,
              ss_fps = Some (Num 25), ss_resolution = None, ss_codec = None,
              ss_status = ''streaming'', ss_uptime = None, ss_errors = 0\<rparr>]]"
    by code_simp
  have "''b'' \<in> set (updated_ids (step DebounceFire a_reported) [ChildStderr 1 ''fps= 25''])"
    by (rule statistics_envelope_only_changed[OF e1 e2]) simp
  with e1 e2 show ?thesis by simp
qed


subsection \<open>Stop, then snapshot\<close>

lemma map_of_fold_update:
  assumes "(\<exists>v. map_of acc k = Some v \<and> P v) \<or> (\<exists>p \<in> set ps. f p = k)"
    and "\<forall>p \<in> set ps. f p = k \<longrightarrow> P (g p)"
  shows "\<exists>v. map_of (fold (\<lambda>p acc. AList.update (f p) (g p) acc) ps acc) k = Some v \<and> P v"
  using assms
proof (induction ps arbitrary: acc)
  case Nil
  then show ?case by simp
next
  case (Cons p ps)
  have "(\<exists>v. map_of (AList.update (f p) (g p) acc) k = Some v \<and> P v) \<or> (\<exists>p \<in> set ps. f p = k)"
    using Cons.prems by (auto simp: update_conv)
  moreover have "\<forall>p \<in> set ps. f p = k \<longrightarrow> P (g p)"
    using Cons.prems by simp
  ultimately show ?case
    using Cons.IH[of "AList.update (f p) (g p) acc"] by simp
qed

lemma platformStatus_off:
  assumes "map_of (platformStreamStates s) (platformIdentifier p) = Some off"
  shows "fst (platformStatus s p) = platformIdentifier p"
    and "st_status (snd (platformStatus s p)) = ''idle''"
    and "st_connected (snd (platformStatus s p)) = Some False"
    and "st_streaming (snd (platformStatus s p)) = Some False"
  using assms
  by (simp_all add: platformStatus_def Let_def off_def land_def truthy_b_def)

lemma getStatus_off:
  assumes cfg: "sm_config s = Some cfg" and d: "d \<in> set (platforms cfg)"
    and st: "map_of (platformStreamStates s) (platformIdentifier d) = Some off"
  shows "\<exists>v. map_of (getStatus s) (platformIdentifier d) = Some v
           \<and> st_status v = ''idle'' \<and> st_connected v = Some False \<and> st_streaming v = Some False"
proof -
  have key: "\<And>p. fst (platformStatus s p) = platformIdentifier p"
    by (simp add: platformStatus_def Let_def)
  have "\<exists>v. map_of (fold (\<lambda>p acc. AList.update (fst (platformStatus s p))
                                   (snd (platformStatus s p)) acc) (platforms cfg) [])
              (platformIdentifier d) = Some v
           \<and> (st_status v = ''idle'' \<and> st_connected v = Some False \<and> st_streaming v = Some False)"
  proof (rule map_of_fold_update)
    show "(\<exists>v. map_of [] (platformIdentifier d) = Some v
             \<and> st_status v = ''idle'' \<and> st_connected v = Some False \<and> st_streaming v = Some False)
          \<or> (\<exists>p \<in> set (platforms cfg). fst (platformStatus s p) = platformIdentifier d)"
      using d key by auto
    show "\<forall>p \<in> set (platforms cfg). fst (platformStatus s p) = platformIdentifier d \<longrightarrow>
            st_status (snd (platformStatus s p)) = ''idle''
            \<and> st_connected (snd (platformStatus s p)) = Some False
            \<and> st_streaming (snd (platformStatus s p)) = Some False"
      using st key platformStatus_off by (metis (no_types, lifting))
  qed
  then show ?thesis by (simp add: getStatus_def cfg)
qed

lemma stopPlatformStream_off:
  assumes "fst (getPlatformConfig s x) = Some d" and "fst (stopPlatformStream s x) = None"
  shows "map_of (platformStreamStates (snd (stopPlatformStream s x))) (platformIdentifier d) = Some off"
    and "sm_config (snd (stopPlatformStream s x)) = sm_config s"
  using assms
  by (auto simp: stopPlatformStream_def Let_def case_prod_unfold update_conv
           split: option.splits if_splits)

lemma fold_stderrLine_keeps [simp]:
  "platformStreamStates (fold (stderrLine i) ls s) = platformStreamStates s"
  "sm_config (fold (stderrLine i) ls s) = sm_config s"
  by (induction ls arbitrary: s)
     (simp_all add: stderrLine_def scheduleStatisticsBroadcast_def split: option.splits)

lemma child_event_keeps_off:
  assumes "is_child_event e" and "map_of (platformStreamStates s) i = Some off"
  shows "map_of (platformStreamStates (step e s)) i = Some off"
    and "sm_config (step e s) = sm_config s"
  using assms
  by (cases e; auto simp: onStdoutData_def onStderrData_def onChildEnd_def Let_def update_conv)+

lemma child_events_keep_off:
  assumes "\<forall>e \<in> set es. is_child_event e" and "map_of (platformStreamStates s) i = Some off"
  shows "map_of (platformStreamStates (run es s)) i = Some off \<and> sm_config (run es s) = sm_config s"
  using assms
proof (induction es arbitrary: s)
  case Nil
  then show ?case by simp
next
  case (Cons e es)
  then show ?case
    using child_event_keeps_off[of e s i] by simp
qed

text \<open>
  Claim C1. Let \<open>d\<close> be a configured destination and let the call
  \<open>stopPlatformStream s x\<close> be one for \<open>d\<close> (the lookup of \<open>x\<close>, an id or a name, gives \<open>d\<close>)
  that returns without throwing. Then the snapshot taken in the state after the call, and
  also after any further events \<open>es\<close> of the relay children (output, exit, error, close,
  in any order and of any child), reports \<open>d\<close>'s identifier with status \<^verbatim>\<open>idle\<close>,
  \<^verbatim>\<open>connected: false\<close> and \<^verbatim>\<open>streaming: false\<close>: the report does not depend on whether the
  child has exited.
\<close>

theorem stopped_destination_reports_idle:
  assumes cfg: "sm_config s = Some cfg" and d: "d \<in> set (platforms cfg)"
    and lookup: "fst (getPlatformConfig s x) = Some d"
    and returned: "fst (stopPlatformStream s x) = None"
    and timing: "\<forall>e \<in> set es. is_child_event e"
  shows "\<exists>v. map_of (getStatus (run es (snd (stopPlatformStream s x)))) (platformIdentifier d) = Some v
           \<and> st_status v = ''idle'' \<and> st_connected v = Some False \<and> st_streaming v = Some False"
proof -
  let ?s1 = "snd (stopPlatformStream s x)"
  have off1: "map_of (platformStreamStates ?s1) (platformIdentifier d) = Some off"
    and cfg1: "sm_config ?s1 = Some cfg"
    using stopPlatformStream_off[OF lookup returned] cfg by simp_all
  have "map_of (platformStreamStates (run es ?s1)) (platformIdentifier d) = Some off"
    and "sm_config (run es ?s1) = Some cfg"
    using child_events_keep_off[OF timing off1] cfg1 by simp_all
  then show ?thesis
    using getStatus_off[of "run es ?s1" cfg d] d by simp
qed

theorem stopped_destination_reports_idle_witness:
  "fst (stopPlatformStream two_streaming ''b'') = None
   \<and> (\<exists>v. map_of (getStatus (run [ChildStderr 1 ''frame= 7 fps= 30'', ChildExit 1 (Some 255), ChildClose 1]
                          (snd (stopPlatformStream two_streaming ''b'')))) ''b'' = Some v
           \<and> st_status v = ''idle'' \<and> st_connected v = Some False \<and> st_streaming v = Some False)
   \<and> map_option st_status (map_of (getStatus (snd (stopPlatformStream two_streaming ''b''))) ''a'')
         = Some ''streaming''"
proof -
  have cfg: "sm_config two_streaming = Some (supervisor_config [twitch_a, twitch_b])"
    by code_simp
  have d: "twitch_b \<in> set (platforms (supervisor_config [twitch_a, twitch_b]))"
    by (simp add: supervisor_config_def)
  have lookup: "fst (getPlatformConfig two_streaming ''b'') = Some twitch_b"
    by code_simp
  have returned: "fst (stopPlatformStream two_streaming ''b'') = None"
    by code_simp
  have timing: "\<forall>e \<in> set [ChildStderr 1 ''frame= 7 fps= 30'', ChildExit 1 (Some 255), ChildClose 1].
                  is_child_event e"
    by simp
  have i: "platformIdentifier twitch_b = ''b''"
    by code_simp
  have a: "map_option st_status (map_of (getStatus (snd (stopPlatformStream two_streaming ''b''))) ''a'')
         = Some ''streaming''"
    by code_simp
  show ?thesis
    using stopped_destination_reports_idle[OF cfg d lookup returned timing] returned a
    by (simp add: i)
qed

subsection \<open>One relay child per destination\<close>

text \<open>
  \<^verbatim>\<open>startPlatformStream\<close> looks for a session of the destination before it spawns: for an
  enabled destination that has one it returns \<^verbatim>\<open>true\<close> and changes nothing but the lookup
  table it may rebuild.
\<close>

lemma startPlatformStream_existing_session:
  assumes "sm_streamProvider s" and "sm_config s \<noteq> None"
    and "fst (getPlatformConfig s x) = Some d" and "p_enabled d"
    and "map_of (ffmpegProcesses s) (platformIdentifier d) \<noteq> None"
  shows "startPlatformStream s x = (Inr True, snd (getPlatformConfig s x))"
  using assms
  by (simp add: startPlatformStream_def Let_def case_prod_unfold split: option.splits)

text \<open>
  The check of \<^verbatim>\<open>enabled\<close> comes first, though: for a destination that a new
  configuration has disabled since its session began, the call throws and spawns nothing.
\<close>

lemma start_of_disabled_destination:
  "map_of (ffmpegProcesses started_then_disabled) ''a'' = Some 0
   \<and> fst (getPlatformConfig started_then_disabled ''a'') = Some (twitch_a\<lparr>p_enabled := False\<rparr>)
   \<and> fst (startPlatformStream started_then_disabled ''a'') = Inl (Error ''Platform a is disabled'')
   \<and> next_pid (snd (startPlatformStream started_then_disabled ''a'')) = 1"
  by code_simp

text \<open>
  Claim C2: at most one relay child exists for a destination at any time. \<^verbatim>\<open>startStream\<close>
  breaks this. Unlike \<^verbatim>\<open>startPlatformStream\<close> it spawns without looking for a session
  of the destination, and \<^verbatim>\<open>startPlatformStreamInternal\<close> writes the new child over the
  entry of the old one. Here two destinations are configured and \<^verbatim>\<open>startStream\<close> is
  called twice: after the first call destination \<^verbatim>\<open>a\<close> has the one child 0, after the
  second call, which returns \<^verbatim>\<open>true\<close> as well, it has the children 0 and 2, both alive.
  The table knows child 2 only, so no stop reaches child 0, whose listeners are still
  attached.
\<close>

theorem second_startStream_spawns_second_child:
  "fst (startStream started_once) = Inr True
   \<and> ffmpegProcesses started_once = [(''a'', 0), (''b'', 1)]
   \<and> live_children started_once ''a'' = [0]
   \<and> ffmpegProcesses started_twice = [(''a'', 2), (''b'', 3)]
   \<and> live_children started_twice ''a'' = [0, 2]
   \<and> cp_listening (procs started_twice 0)
   \<and> live_children (snd (stopPlatformStream started_twice ''a'')) ''a'' = [0]"
  by code_simp

subsection \<open>Output URL\<close>

lemma app_suffixes_exclusive: "\<not> (endsWith u ''/app'' \<and> endsWith u ''/app/'')"
  by (auto simp: endsWith_def suffix_def)

text \<open>
  Claim C3. The output URL is the last argument of the child that is spawned. For a base
  URL that starts with \<^verbatim>\<open>rtmp://\<close> it is the URL, a slash and the stream key. For one
  that starts with \<^verbatim>\<open>rtmps://\<close> it is the URL, a slash and the key when the URL ends
  with \<^verbatim>\<open>/app\<close>; the URL and the key when the URL ends with \<^verbatim>\<open>/app/\<close>; and otherwise
  the URL without its trailing slash (one slash, if it ends with one), followed by
  \<^verbatim>\<open>/app/\<close> and the key.
\<close>

theorem output_url_composition:
  "last (ffmpegArgs pc inp) = outputUrl pc
   \<and> (fst (startPlatformStreamInternal s pc i inp) = None \<longrightarrow>
        last (cp_args (procs (snd (startPlatformStreamInternal s pc i inp)) (next_pid s)))
          = outputUrl pc)
   \<and> (prefix ''rtmp://'' (p_rtmpUrl pc) \<longrightarrow>
        outputUrl pc = p_rtmpUrl pc @ ''/'' @ p_streamKey pc)
   \<and> (prefix ''rtmps://'' (p_rtmpUrl pc) \<longrightarrow>
        (suffix ''/app'' (p_rtmpUrl pc) \<longrightarrow>
           outputUrl pc = p_rtmpUrl pc @ ''/'' @ p_streamKey pc)
      \<and> (suffix ''/app/'' (p_rtmpUrl pc) \<longrightarrow>
           outputUrl pc = p_rtmpUrl pc @ p_streamKey pc)
      \<and> (\<not> suffix ''/app'' (p_rtmpUrl pc) \<and> \<not> suffix ''/app/'' (p_rtmpUrl pc) \<longrightarrow>
           outputUrl pc
             = (if suffix ''/'' (p_rtmpUrl pc) then butlast (p_rtmpUrl pc) else p_rtmpUrl pc)
               @ ''/app/'' @ p_streamKey pc))"
proof -
  have strip: "stripTrailingSlash (p_rtmpUrl pc)
      = (if suffix ''/'' (p_rtmpUrl pc) then butlast (p_rtmpUrl pc) else p_rtmpUrl pc)"
    by (cases "p_rtmpUrl pc" rule: rev_cases) (auto simp: stripTrailingSlash_def suffix_def)
  have nors: "prefix ''rtmp://'' (p_rtmpUrl pc) \<Longrightarrow> \<not> prefix ''rtmps://'' (p_rtmpUrl pc)"
    by (auto simp: prefix_def)
  have excl: "suffix ''/app/'' (p_rtmpUrl pc) \<Longrightarrow> \<not> suffix ''/app'' (p_rtmpUrl pc)"
    using app_suffixes_exclusive[of "p_rtmpUrl pc"] by (simp add: endsWith_def)
  show ?thesis
    using nors excl
    by (auto simp: outputUrl_def ffmpegArgs_def startPlatformStreamInternal_def Let_def
          startsWith_def endsWith_def strip split: option.splits)
qed

theorem output_url_composition_witness:
  "prefix ''rtmps://'' (p_rtmpUrl kick_ivs)
   \<and> \<not> suffix ''/app'' (p_rtmpUrl kick_ivs) \<and> \<not> suffix ''/app/'' (p_rtmpUrl kick_ivs)
   \<and> outputUrl kick_ivs = ''rtmps://fa723.global-contribute.live-video.net/app/sk_abc''
   \<and> prefix ''rtmp://'' (p_rtmpUrl twitch_a)
   \<and> outputUrl twitch_a = ''rtmp://live.twitch.tv/app/X''
   \<and> last (cp_args (procs two_streaming 0)) = ''rtmp://live.twitch.tv/app/X''"
proof -
  have k1: "prefix ''rtmps://'' (p_rtmpUrl kick_ivs)"
    by (simp add: kick_ivs_def destination_def)
  have k2: "\<not> suffix ''/app'' (p_rtmpUrl kick_ivs)" "\<not> suffix ''/app/'' (p_rtmpUrl kick_ivs)"
    by (simp_all add: kick_ivs_def destination_def suffix_to_prefix)
  have k3: "\<not> suffix ''/'' (p_rtmpUrl kick_ivs)"
    by (simp add: kick_ivs_def destination_def suffix_to_prefix)
  have t1: "prefix ''rtmp://'' (p_rtmpUrl twitch_a)"
    by (simp add: twitch_a_def destination_def)
  have c: "last (cp_args (procs two_streaming 0)) = ''rtmp://live.twitch.tv/app/X''"
    by code_simp
  show ?thesis
    using output_url_composition[of kick_ivs "[]" new_StreamManager "[]"]
          output_url_composition[of twitch_a "[]" new_StreamManager "[]"] k1 k2 k3 t1 c
    by (simp add: kick_ivs_def twitch_a_def destination_def)
qed

subsection \<open>RTMP ingest\<close>

text \<open>
  A publish that passes the check is not yet accepted: for a path that is being published
  already the protocol server rejects the session after \<^verbatim>\<open>prePublish\<close>, which leaves the
  status at \<^verbatim>\<open>connecting\<close> and no subscriber called a second time.
\<close>

lemma second_publisher_rejected_by_server:
  "rejected (publish_request (\<lambda>_. ''1935'') 8 ''/live/obs''
               (publish_request (\<lambda>_. ''1935'') 7 ''/live/obs'' (subscribed_ingest ''obs''))) = [8]
   \<and> rs_status (publish_request (\<lambda>_. ''1935'') 8 ''/live/obs''
                  (publish_request (\<lambda>_. ''1935'') 7 ''/live/obs'' (subscribed_ingest ''obs'')))
       = CONNECTING
   \<and> notified (publish_request (\<lambda>_. ''1935'') 8 ''/live/obs''
                  (publish_request (\<lambda>_. ''1935'') 7 ''/live/obs'' (subscribed_ingest ''obs'')))
       = [(''sub1'', STREAMING)]"
  by (simp add: trailing_segment_def publish_request_def prePublish_def postPublish_def
        subscribed_ingest_def new_RTMPServer_def ingest_config_def Let_def)

text \<open>
  Claim C4 as stated fails for an ingest whose configured stream key is empty: the guard
  of the check lets every publish through, whatever its trailing segment. Here the key
  is \<^verbatim>\<open>''\<close> and the publish goes to \<^verbatim>\<open>/live/abc\<close>: it is not rejected, the status
  becomes \<^verbatim>\<open>streaming\<close> and the subscriber is notified.
\<close>

theorem empty_stream_key_accepts_any_publish_counterexample:
  "trailing_segment ''/live/abc'' = Some ''abc''
   \<and> Some ''abc'' \<noteq> Some (r_streamKey (rs_config (subscribed_ingest '''')))
   \<and> rejected (publish_request (\<lambda>_. ''1935'') 7 ''/live/abc'' (subscribed_ingest '''')) = []
   \<and> rs_status (publish_request (\<lambda>_. ''1935'') 7 ''/live/abc'' (subscribed_ingest '''')) = STREAMING
   \<and> notified (publish_request (\<lambda>_. ''1935'') 7 ''/live/abc'' (subscribed_ingest ''''))
       = [(''sub1'', STREAMING)]"
  by (simp add: trailing_segment_def publish_request_def prePublish_def postPublish_def
        subscribed_ingest_def new_RTMPServer_def ingest_config_def Let_def)

text \<open>
  Claim C4, amended. When a non-empty stream key is configured, the \<^verbatim>\<open>prePublish\<close>
  listener rejects every publish whose trailing path segment differs from it (or is
  missing) and changes nothing else; the publish request then ends without
  \<^verbatim>\<open>postPublish\<close>: the status is what it was (\<^verbatim>\<open>idle\<close> for an idle ingest), no
  subscriber is called, no event is emitted and the path is not entered as published.
\<close>

theorem mismatching_publish_rejected:
  assumes "r_streamKey (rs_config s) \<noteq> []"
    and "trailing_segment StreamPath \<noteq> Some (r_streamKey (rs_config s))"
  shows "prePublish sid StreamPath s = s\<lparr>rejected := rejected s @ [sid]\<rparr>
    \<and> publish_request numToString sid StreamPath s = s\<lparr>rejected := rejected s @ [sid]\<rparr>
    \<and> rs_status (publish_request numToString sid StreamPath s) = rs_status s
    \<and> notified (publish_request numToString sid StreamPath s) = notified s
    \<and> emitted (publish_request numToString sid StreamPath s) = emitted s
    \<and> actualStreamPath (publish_request numToString sid StreamPath s) = actualStreamPath s
    \<and> publishers (publish_request numToString sid StreamPath s) = publishers s"
  using assms by (simp add: prePublish_def publish_request_def Let_def)

theorem mismatching_publish_rejected_witness:
  "r_streamKey (rs_config (subscribed_ingest ''obs'')) \<noteq> []
   \<and> trailing_segment ''/live/wrongkey'' = Some ''wrongkey''
   \<and> rejected (publish_request (\<lambda>_. ''1935'') 7 ''/live/wrongkey'' (subscribed_ingest ''obs'')) = [7]
   \<and> rs_status (publish_request (\<lambda>_. ''1935'') 7 ''/live/wrongkey'' (subscribed_ingest ''obs'')) = IDLE
   \<and> notified (publish_request (\<lambda>_. ''1935'') 7 ''/live/wrongkey'' (subscribed_ingest ''obs'')) = []"
proof -
  have k: "r_streamKey (rs_config (subscribed_ingest ''obs'')) \<noteq> []"
    by (simp add: subscribed_ingest_def new_RTMPServer_def ingest_config_def)
  have t: "trailing_segment ''/live/wrongkey'' = Some ''wrongkey''"
    by (simp add: trailing_segment_def Let_def)
  have m: "trailing_segment ''/live/wrongkey''
             \<noteq> Some (r_streamKey (rs_config (subscribed_ingest ''obs'')))"
    by (simp add: t subscribed_ingest_def new_RTMPServer_def ingest_config_def)
  show ?thesis
    using mismatching_publish_rejected[OF k m, of 7 "\<lambda>_. ''1935''"] k t
    by (simp add: subscribed_ingest_def new_RTMPServer_def)
qed

subsection \<open>Configuration store\<close>

lemmas obj_simps = object_def assign_def defaultOBS_def defaultRTMPServer_def
  defaultStreamManager_def defaultUI_def defaultConfig_def js_or_def nullish_def

lemma yaml_platform:
  assumes "storable_platform p"
  shows "defined_part (platformYaml p) =
     JObj ([(''id'', JStr (the (p_id p))), (''name'', JStr (p_name p))]
           @ (case p_displayName p of None \<Rightarrow> [] | Some d \<Rightarrow> [(''display_name'', JStr d)])
           @ [(''rtmp_url'', JStr (p_rtmpUrl p)), (''stream_key'', JStr (p_streamKey p)),
              (''enabled'', JBool (p_enabled p)), (''metadata'', JObj (p_metadata p))])"
  using assms
  by (auto simp: storable_platform_def platformYaml_def opt_jv_def absent_or_empty_def
           split: option.splits)

lemma convert_schema_None:
  assumes "p_id p = Some i" "i \<noteq> []" "p_displayName p = None"
  shows "bindE (convertPlatform now (k, JObj [(''id'', JStr i), (''name'', JStr (p_name p)),
              (''rtmp_url'', JStr (p_rtmpUrl p)), (''stream_key'', JStr (p_streamKey p)),
              (''enabled'', JBool (p_enabled p)), (''metadata'', JObj (p_metadata p))]))
           (PlatformConfigSchema path) = Inr p"
proof -
  have c: "convertPlatform now (k, JObj [(''id'', JStr i), (''name'', JStr (p_name p)),
              (''rtmp_url'', JStr (p_rtmpUrl p)), (''stream_key'', JStr (p_streamKey p)),
              (''enabled'', JBool (p_enabled p)), (''metadata'', JObj (p_metadata p))])
      = Inr (JObj
          [(''id'', JStr i), (''name'', JStr (p_name p)),
           (''rtmp_url'', JStr (p_rtmpUrl p)),
           (''stream_key'', JStr (p_streamKey p)),
           (''enabled'', JBool (p_enabled p)),
           (''metadata'', JObj (p_metadata p)), (''displayName'', JUndef),
           (''rtmpUrl'', JStr (p_rtmpUrl p)),
           (''streamKey'', JStr (p_streamKey p))])"
    using assms(2) by (simp add: convertPlatform_def obj_simps)
  have s: "PlatformConfigSchema path (JObj
          [(''id'', JStr i), (''name'', JStr (p_name p)),
           (''rtmp_url'', JStr (p_rtmpUrl p)),
           (''stream_key'', JStr (p_streamKey p)),
           (''enabled'', JBool (p_enabled p)),
           (''metadata'', JObj (p_metadata p)), (''displayName'', JUndef),
           (''rtmpUrl'', JStr (p_rtmpUrl p)),
           (''streamKey'', JStr (p_streamKey p))]) = Inr p"
    using assms(1,3)
    by (simp add: bindE_def PlatformConfigSchema_def
          z_optional_def z_string_def z_default_def z_boolean_def z_record_any_def)
  show ?thesis by (simp only: c s bindE_def sum.case)
qed

lemma convert_schema_Some:
  assumes "p_id p = Some i" "i \<noteq> []" "p_displayName p = Some d"
  shows "bindE (convertPlatform now (k, JObj [(''id'', JStr i), (''name'', JStr (p_name p)),
              (''display_name'', JStr d),
              (''rtmp_url'', JStr (p_rtmpUrl p)), (''stream_key'', JStr (p_streamKey p)),
              (''enabled'', JBool (p_enabled p)), (''metadata'', JObj (p_metadata p))]))
           (PlatformConfigSchema path) = Inr p"
proof -
  have c: "convertPlatform now (k, JObj [(''id'', JStr i), (''name'', JStr (p_name p)),
              (''display_name'', JStr d),
              (''rtmp_url'', JStr (p_rtmpUrl p)), (''stream_key'', JStr (p_streamKey p)),
              (''enabled'', JBool (p_enabled p)), (''metadata'', JObj (p_metadata p))])
      = Inr (JObj
          [(''id'', JStr i), (''name'', JStr (p_name p)),
           (''display_name'', JStr d),
           (''rtmp_url'', JStr (p_rtmpUrl p)),
           (''stream_key'', JStr (p_streamKey p)),
           (''enabled'', JBool (p_enabled p)),
           (''metadata'', JObj (p_metadata p)), (''displayName'', JStr d),
           (''rtmpUrl'', JStr (p_rtmpUrl p)),
           (''streamKey'', JStr (p_streamKey p))])"
    using assms(2) by (simp add: convertPlatform_def obj_simps)
  have s: "PlatformConfigSchema path (JObj
          [(''id'', JStr i), (''name'', JStr (p_name p)),
           (''display_name'', JStr d),
           (''rtmp_url'', JStr (p_rtmpUrl p)),
           (''stream_key'', JStr (p_streamKey p)),
           (''enabled'', JBool (p_enabled p)),
           (''metadata'', JObj (p_metadata p)), (''displayName'', JStr d),
           (''rtmpUrl'', JStr (p_rtmpUrl p)),
           (''streamKey'', JStr (p_streamKey p))]) = Inr p"
    using assms(1,3)
    by (simp add: bindE_def PlatformConfigSchema_def
          z_optional_def z_string_def z_default_def z_boolean_def z_record_any_def)
  show ?thesis by (simp only: c s bindE_def sum.case)
qed

lemma platform_round_trip:
  assumes "storable_platform p"
  shows "bindE (convertPlatform now (k, defined_part (platformYaml p))) (PlatformConfigSchema path)
           = Inr p"
proof -
  obtain i where i: "p_id p = Some i" "i \<noteq> []"
    using assms by (auto simp: storable_platform_def absent_or_empty_def split: option.splits)
  show ?thesis
  proof (cases "p_displayName p")
    case None
    have "defined_part (platformYaml p) = JObj [(''id'', JStr i), (''name'', JStr (p_name p)),
              (''rtmp_url'', JStr (p_rtmpUrl p)), (''stream_key'', JStr (p_streamKey p)),
              (''enabled'', JBool (p_enabled p)), (''metadata'', JObj (p_metadata p))]"
      using yaml_platform[OF assms] i None by simp
    then show ?thesis using convert_schema_None[OF i None] by simp
  next
    case (Some d)
    have "defined_part (platformYaml p) = JObj [(''id'', JStr i), (''name'', JStr (p_name p)),
              (''display_name'', JStr d),
              (''rtmp_url'', JStr (p_rtmpUrl p)), (''stream_key'', JStr (p_streamKey p)),
              (''enabled'', JBool (p_enabled p)), (''metadata'', JObj (p_metadata p))]"
      using yaml_platform[OF assms] i Some by simp
    then show ?thesis using convert_schema_Some[OF i Some] by simp
  qed
qed

lemma platforms_round_trip:
  assumes "\<forall>p \<in> set ps. storable_platform p"
  shows "\<exists>cps. mapE (convertPlatform now)
                 (zip [k..<k + length ps] (map (\<lambda>p. defined_part (platformYaml p)) ps)) = Inr cps
               \<and> mapE (PlatformConfigSchema path) cps = Inr ps"
  using assms
proof (induction ps arbitrary: k)
  case Nil
  then show ?case by simp
next
  case (Cons p ps)
  obtain cps where cps:
    "mapE (convertPlatform now)
       (zip [Suc k..<Suc k + length ps] (map (\<lambda>p. defined_part (platformYaml p)) ps)) = Inr cps"
    "mapE (PlatformConfigSchema path) cps = Inr ps"
    using Cons.IH[of "Suc k"] Cons.prems by auto
  have "bindE (convertPlatform now (k, defined_part (platformYaml p))) (PlatformConfigSchema path)
          = Inr p"
    using Cons.prems by (simp add: platform_round_trip)
  then obtain cp where cp: "convertPlatform now (k, defined_part (platformYaml p)) = Inr cp"
    "PlatformConfigSchema path cp = Inr p"
    by (auto simp: bindE_def split: sum.splits)
  have z: "[k..<Suc (k + length ps)] = k # [Suc k..<Suc (k + length ps)]"
    by (rule upt_conv_Cons) simp
  show ?case
    using cps cp by (intro exI[of _ "cp # cps"]) (simp add: z del: upt_Suc)
qed

lemma platformYaml_defined: "platformYaml p \<noteq> JUndef"
  by (simp add: platformYaml_def)

lemma yaml_config:
  assumes "o_password (obs (streamManager config)) \<noteq> PwUndefined"
  shows "defined_part (yamlData config) =
     JObj [(''version'', JStr (version config)),
           (''stream_manager'',
              JObj [(''obs'',
                       JObj [(''host'', JStr (o_host (obs (streamManager config)))),
                             (''port'', JNum (o_port (obs (streamManager config)))),
                             (''password'', password_jv (o_password (obs (streamManager config))))]),
                    (''rtmp_server'',
                       JObj [(''host'', JStr (r_host (rtmpServer (streamManager config)))),
                             (''port'', JNum (r_port (rtmpServer (streamManager config)))),
                             (''app_name'', JStr (r_appName (rtmpServer (streamManager config)))),
                             (''stream_key'', JStr (r_streamKey (rtmpServer (streamManager config)))),
                             (''enabled'', JBool (r_enabled (rtmpServer (streamManager config))))]),
                    (''auto_reconnect'', JBool (c_autoReconnect (streamManager config))),
                    (''reconnect_delay'', JNum (c_reconnectDelay (streamManager config))),
                    (''max_reconnect_attempts'',
                       JNum (c_maxReconnectAttempts (streamManager config))),
                    (''platforms'', JArr (map (\<lambda>p. defined_part (platformYaml p))
                                              (c_platforms (streamManager config))))]),
           (''ui'',
              JObj [(''host'', JStr (u_host (ui config))), (''port'', JNum (u_port (ui config))),
                    (''debug'', JBool (u_debug (ui config)))])]"
  using assms
  by (cases "o_password (obs (streamManager config))")
     (simp_all add: yamlData_def password_jv_def platformYaml_defined comp_def)

lemma load_doc:
  assumes st: "storable config" and ne: "no_overrides m"
    and cps1: "mapE (convertPlatform now)
                 (zip [0..<length (c_platforms (streamManager config))]
                      (map (\<lambda>p. defined_part (platformYaml p)) (c_platforms (streamManager config))))
               = Inr cps"
    and cps2: "mapE (PlatformConfigSchema ''streamManager.platforms'') cps
               = Inr (c_platforms (streamManager config))"
  shows "bindE (snakeToCamel now (object [own_props defaultConfig, own_props defaultConfig,
                                          own_props (defined_part (yamlData config))]))
           (\<lambda>c. ConfigSchema (envOverrides m (ensureRequired c))) = Inr config"
proof -
  have pw: "o_password (obs (streamManager config)) \<noteq> PwUndefined"
    and v: "version config \<noteq> []"
    and a: "r_appName (rtmpServer (streamManager config)) \<noteq> []"
    and k: "r_streamKey (rtmpServer (streamManager config)) \<noteq> []"
    using st by (simp_all add: storable_def)
  have e: "envOverrides m = (\<lambda>c. c)"
    using ne by (auto simp: envOverrides_def no_overrides_def Let_def)
  show ?thesis
    using pw v a k cps1 cps2
    apply (simp add: yaml_config[OF pw] e)
    apply (cases "o_password (obs (streamManager config))")
    apply (simp_all add: obj_simps snakeToCamel_def convertStreamManager_def bindE_def
          ensureRequired_def Let_def ConfigSchema_def StreamManagerConfigSchema_def
          OBSConfigSchema_def RTMPServerConfigSchema_def UIConfigSchema_def z_platforms_def
          z_string_def z_number_def z_boolean_def z_default_def z_password_def password_jv_def)
    done
qed

lemma configFilePath_saved [simp]:
  "configFilePath (snd (saveConfig m t config configPath)) cp = configFilePath m cp"
  by (simp add: saveConfig_def Let_def configFilePath_def invalidateConfigCache_def env_set_def
        env_val_def)

lemma saveConfig_ok:
  assumes "configFilePath m configPath \<notin> set (unwritable m)"
  shows "fst (saveConfig m t config configPath) = None"
    and "configCache (snd (saveConfig m t config configPath)) = None"
    and "map_of (files (snd (saveConfig m t config configPath))) (configFilePath m configPath)
           = Some \<lparr>mtimeMs = t, content = stringify m (yamlData config)\<rparr>"
    and "no_overrides (snd (saveConfig m t config configPath)) = no_overrides m"
    and "parse (snd (saveConfig m t config configPath)) = parse m"
  using assms
  by (simp_all add: saveConfig_def Let_def invalidateConfigCache_def update_conv no_overrides_def
        env_set_def)

lemma readConfig_round_trip:
  assumes st: "storable config" and ne: "no_overrides m"
    and f: "map_of (files m) file = Some \<lparr>mtimeMs = t, content = txt\<rparr>"
    and p: "parse m txt = Some (defined_part (yamlData config))"
  shows "readConfig m now file = (Inr config, t)"
proof -
  obtain cps where cps:
    "mapE (convertPlatform now)
       (zip [0..<0 + length (c_platforms (streamManager config))]
            (map (\<lambda>p. defined_part (platformYaml p)) (c_platforms (streamManager config)))) = Inr cps"
    "mapE (PlatformConfigSchema ''streamManager.platforms'') cps
       = Inr (c_platforms (streamManager config))"
    using platforms_round_trip[of "c_platforms (streamManager config)" now 0
            "''streamManager.platforms''"] st
    by (auto simp: storable_def)
  have "bindE (snakeToCamel now (object [own_props defaultConfig, own_props defaultConfig,
                                          own_props (defined_part (yamlData config))]))
           (\<lambda>c. ConfigSchema (envOverrides m (ensureRequired c))) = Inr config"
    using load_doc[OF st ne] cps by simp
  then show ?thesis
    by (simp add: readConfig_def f p)
qed

text \<open>
  Claim C5 as stated fails: a save writes to the configuration file directly. Here the
  only path written is the target itself, and the log of the call holds no rename.
\<close>

theorem save_writes_no_temporary_file_counterexample:
  "fst (saveConfig plain_module 1000 (example_config [twitch_a]) (Some ''/etc/c.yaml'')) = None
   \<and> written_paths (fs_log (snd (saveConfig plain_module 1000 (example_config [twitch_a])
                                     (Some ''/etc/c.yaml'')))) = [''/etc/c.yaml'']
   \<and> filter is_rename (fs_log (snd (saveConfig plain_module 1000 (example_config [twitch_a])
                                        (Some ''/etc/c.yaml'')))) = []"
  by code_simp

text \<open>
  Claim C5, amended. \<^verbatim>\<open>saveConfig\<close> makes two calls of the file system, in this order:
  it creates the directory of the configuration file and writes the serialized document
  to the configuration file itself (no temporary file, no rename). When the write
  succeeds the file holds the document and the cache is invalidated; when it fails the
  call throws and the cache is left as it was.
\<close>

theorem saveConfig_writes_target_directly:
  "fs_log (snd (saveConfig m now config configPath))
     = fs_log m @ [Mkdir (join m (configFilePath m configPath) ''..''),
                   WriteFile (configFilePath m configPath) (stringify m (yamlData config))]
   \<and> (configFilePath m configPath \<notin> set (unwritable m) \<longrightarrow>
        fst (saveConfig m now config configPath) = None
        \<and> configCache (snd (saveConfig m now config configPath)) = None
        \<and> map_of (files (snd (saveConfig m now config configPath))) (configFilePath m configPath)
            = Some \<lparr>mtimeMs = now, content = stringify m (yamlData config)\<rparr>)
   \<and> (configFilePath m configPath \<in> set (unwritable m) \<longrightarrow>
        fst (saveConfig m now config configPath) = Some IOError
        \<and> configCache (snd (saveConfig m now config configPath)) = configCache m
        \<and> files (snd (saveConfig m now config configPath)) = files m)"
  by (simp add: saveConfig_def Let_def invalidateConfigCache_def update_conv)

theorem saveConfig_writes_target_directly_witness:
  "configFilePath plain_module (Some ''/etc/c.yaml'') \<notin> set (unwritable plain_module)
   \<and> fs_log (snd (saveConfig plain_module 1000 (example_config [twitch_a]) (Some ''/etc/c.yaml'')))
       = [Mkdir ''/etc/c.yaml/..'', WriteFile ''/etc/c.yaml'' (config_text twitch_a_lines)]
   \<and> configCache (snd (saveConfig plain_module 1000 (example_config [twitch_a])
                          (Some ''/etc/c.yaml''))) = None
   \<and> configFilePath (plain_module\<lparr>unwritable := [''/etc/c.yaml'']\<rparr>) (Some ''/etc/c.yaml'')
        \<in> set (unwritable (plain_module\<lparr>unwritable := [''/etc/c.yaml'']\<rparr>))
   \<and> fst (saveConfig (plain_module\<lparr>unwritable := [''/etc/c.yaml'']\<rparr>) 1000
             (example_config [twitch_a]) (Some ''/etc/c.yaml'')) = Some IOError"
proof -
  have p: "configFilePath plain_module (Some ''/etc/c.yaml'') = ''/etc/c.yaml''"
    "configFilePath (plain_module\<lparr>unwritable := [''/etc/c.yaml'']\<rparr>) (Some ''/etc/c.yaml'')
       = ''/etc/c.yaml''"
    by (simp_all add: configFilePath_def absent_or_empty_def)
  have t: "stringify plain_module (yamlData (example_config [twitch_a]))
             = config_text twitch_a_lines"
    by code_simp
  show ?thesis
    using saveConfig_writes_target_directly[of plain_module 1000 "example_config [twitch_a]"
            "Some ''/etc/c.yaml''"]
          saveConfig_writes_target_directly[of "plain_module\<lparr>unwritable := [''/etc/c.yaml'']\<rparr>"
            1000 "example_config [twitch_a]" "Some ''/etc/c.yaml''"]
    by (simp add: p t) (simp add: plain_module_def)
qed

text \<open>
  Claim C6 as stated fails for a schema-valid configuration with a destination that has
  no id (the field is optional): the load generates one, so what is loaded differs from
  what was saved.
\<close>

theorem load_returns_generated_id_counterexample:
  "fst (saveConfig plain_module 1000 (example_config [twitch_a\<lparr>p_id := None\<rparr>])
          (Some ''/etc/c.yaml'')) = None
   \<and> map (content \<circ> snd)
         (files (snd (saveConfig plain_module 1000 (example_config [twitch_a\<lparr>p_id := None\<rparr>])
                        (Some ''/etc/c.yaml''))))
       = [config_text twitch_no_id_lines]
   \<and> fst (loadConfig (snd (saveConfig plain_module 1000 (example_config [twitch_a\<lparr>p_id := None\<rparr>])
                             (Some ''/etc/c.yaml''))) 1005 (Some ''/etc/c.yaml''))
       = Inr (example_config [twitch_a\<lparr>p_id := Some ''platform_1005_0''\<rparr>])
   \<and> example_config [twitch_a\<lparr>p_id := Some ''platform_1005_0''\<rparr>]
       \<noteq> example_config [twitch_a\<lparr>p_id := None\<rparr>]"
  by code_simp

text \<open>
  Claim C6, amended. Let a storable configuration be saved to a writable path, in a
  process without overriding environment variables, and let the package yaml read the
  text it writes for \<^verbatim>\<open>yamlData\<close> back as the document written. Then loading from the
  same path returns the configuration that was saved; the file holds the text that
  \<^verbatim>\<open>stringify\<close> made, and the document it is read back as holds the ingest's and every
  destination's stream key as it is, unmasked.
\<close>

theorem save_then_load_round_trip:
  assumes "storable config" and "no_overrides m"
    and "configFilePath m configPath \<notin> set (unwritable m)"
    and "parse m (stringify m (yamlData config)) = Some (defined_part (yamlData config))"
  shows "fst (saveConfig m t1 config configPath) = None
     \<and> fst (loadConfig (snd (saveConfig m t1 config configPath)) t2 configPath) = Inr config
     \<and> map_of (files (snd (saveConfig m t1 config configPath))) (configFilePath m configPath)
         = Some \<lparr>mtimeMs = t1, content = stringify m (yamlData config)\<rparr>
     \<and> (\<exists>doc docs.
          parse m (stringify m (yamlData config)) = Some doc
          \<and> getProp (getProp (getProp doc ''stream_manager'') ''rtmp_server'') ''stream_key''
              = JStr (r_streamKey (rtmpServer (streamManager config)))
          \<and> getProp (getProp doc ''stream_manager'') ''platforms'' = JArr docs
          \<and> map (\<lambda>d. getProp d ''stream_key'') docs
              = map (\<lambda>p. JStr (p_streamKey p)) (c_platforms (streamManager config)))"
proof -
  let ?m1 = "snd (saveConfig m t1 config configPath)"
  let ?f = "configFilePath m configPath"
  note s = saveConfig_ok[OF assms(3), of t1 config]
  have r: "readConfig ?m1 t2 ?f = (Inr config, t1)"
    using readConfig_round_trip[OF assms(1), of ?m1 ?f t1 "stringify m (yamlData config)" t2]
      s(3,4,5) assms(2,4) by simp
  have l: "fst (loadConfig ?m1 t2 configPath) = Inr config"
    using s(2) r by (simp add: loadConfig_def Let_def)
  have pw: "o_password (obs (streamManager config)) \<noteq> PwUndefined"
    using assms(1) by (simp add: storable_def)
  have sk: "\<And>p. storable_platform p \<Longrightarrow> getProp (defined_part (platformYaml p)) ''stream_key''
               = JStr (p_streamKey p)"
    by (simp add: yaml_platform split: option.splits)
  have d: "map (\<lambda>d. getProp d ''stream_key'')
             (map (\<lambda>p. defined_part (platformYaml p)) (c_platforms (streamManager config)))
           = map (\<lambda>p. JStr (p_streamKey p)) (c_platforms (streamManager config))"
    using assms(1) sk by (simp add: storable_def)
  have k: "\<exists>doc docs.
          parse m (stringify m (yamlData config)) = Some doc
          \<and> getProp (getProp (getProp doc ''stream_manager'') ''rtmp_server'') ''stream_key''
              = JStr (r_streamKey (rtmpServer (streamManager config)))
          \<and> getProp (getProp doc ''stream_manager'') ''platforms'' = JArr docs
          \<and> map (\<lambda>d. getProp d ''stream_key'') docs
              = map (\<lambda>p. JStr (p_streamKey p)) (c_platforms (streamManager config))"
    using d assms(4)
    by (intro exI[of _ "defined_part (yamlData config)"]
          exI[of _ "map (\<lambda>p. defined_part (platformYaml p)) (c_platforms (streamManager config))"])
       (simp add: yaml_config[OF pw])
  show ?thesis
    using s(1) l s(3) k by simp
qed

theorem save_then_load_round_trip_witness:
  "storable (example_config [twitch_a, kick_ivs]) \<and> no_overrides plain_module
   \<and> configFilePath plain_module (Some ''/etc/c.yaml'') \<notin> set (unwritable plain_module)
   \<and> stringify plain_module (yamlData (example_config [twitch_a, kick_ivs]))
       = config_text (twitch_a_lines @ kick_ivs_lines)
   \<and> parse plain_module (config_text (twitch_a_lines @ kick_ivs_lines))
       = Some (defined_part (yamlData (example_config [twitch_a, kick_ivs])))
   \<and> fst (loadConfig (snd (saveConfig plain_module 1000 (example_config [twitch_a, kick_ivs])
                             (Some ''/etc/c.yaml''))) 1005 (Some ''/etc/c.yaml''))
       = Inr (example_config [twitch_a, kick_ivs])"
proof -
  have s: "storable (example_config [twitch_a, kick_ivs])"
    by (simp add: storable_def storable_platform_def example_config_def twitch_a_def kick_ivs_def
          destination_def ingest_config_def absent_or_empty_def)
  have n: "no_overrides plain_module"
    by (simp add: no_overrides_def env_set_def plain_module_def absent_or_empty_def)
  have w: "configFilePath plain_module (Some ''/etc/c.yaml'') \<notin> set (unwritable plain_module)"
    by (simp add: plain_module_def)
  have t: "stringify plain_module (yamlData (example_config [twitch_a, kick_ivs]))
             = config_text (twitch_a_lines @ kick_ivs_lines)"
    by code_simp
  have p: "parse plain_module (config_text (twitch_a_lines @ kick_ivs_lines))
             = Some (defined_part (yamlData (example_config [twitch_a, kick_ivs])))"
    by code_simp
  have h: "parse plain_module (stringify plain_module (yamlData (example_config [twitch_a, kick_ivs])))
             = Some (defined_part (yamlData (example_config [twitch_a, kick_ivs])))"
    by (simp only: t p)
  show ?thesis
    using save_then_load_round_trip[OF s n w h, of 1000 1005] s n w t p by simp
qed

text \<open>
  Claim C8 as stated fails: \<^verbatim>\<open>loadConfig\<close> does not filter. Here the file holds three
  destinations, the second with an empty URL and the third with a blank stream key, and
  the configuration returned holds all three.
\<close>

theorem load_keeps_empty_url_counterexample:
  "fst (loadConfig three_stored 1000 (Some ''/etc/c.yaml'')) = Inr three_loaded
   \<and> map (\<lambda>p. (p_id p, p_rtmpUrl p, p_streamKey p)) (c_platforms (streamManager three_loaded))
       = [(Some ''a'', ''rtmp://live.twitch.tv/app'', ''X''),
          (Some ''b'', [], ''kb''),
          (Some ''c'', ''rtmp://live.twitch.tv/app'', '' '')]"
  by code_simp

text \<open>
  Claim C8, amended. Whenever the startup gets a configuration from \<^verbatim>\<open>loadConfig\<close>, the
  destination list that \<^verbatim>\<open>setupRegistry\<close> builds from it and hands to the supervisor holds
  no destination with an empty URL or with an empty or blank stream key: it is the loaded
  list without exactly those destinations, in the loaded order, and nothing is thrown
  for them.
\<close>

theorem startup_filters_invalid_destinations:
  assumes "fst (startServer m now configFile s) = Inr s'"
  shows "\<exists>config streamConfig'.
           fst (loadConfig (setConfigPath configFile m) now (Some configFile)) = Inr config
         \<and> sm_config s' = Some streamConfig'
         \<and> platforms streamConfig'
             = filter (\<lambda>p. p_rtmpUrl p \<noteq> [] \<and> p_streamKey p \<noteq> [] \<and> trim (p_streamKey p) \<noteq> [])
                      (c_platforms (streamManager config))
         \<and> (\<forall>p \<in> set (platforms streamConfig').
                p_rtmpUrl p \<noteq> [] \<and> p_streamKey p \<noteq> []
                \<and> (\<exists>c \<in> set (p_streamKey p). \<not> is_space c))"
proof -
  obtain config where l:
    "fst (loadConfig (setConfigPath configFile m) now (Some configFile)) = Inr config"
    and s': "s' = setupRegistry config s"
    using assms by (auto simp: startServer_def split: prod.splits sum.splits)
  have t: "\<And>k. trim k \<noteq> [] \<Longrightarrow> \<exists>c \<in> set k. \<not> is_space c"
    by (auto simp: trim_def dropWhile_eq_Nil_conv dest: set_dropWhileD)
  have i: "map (\<lambda>p. \<lparr>p_id = p_id p, p_name = p_name p, p_displayName = p_displayName p,
                p_rtmpUrl = p_rtmpUrl p, p_streamKey = p_streamKey p,
                p_enabled = p_enabled p, p_metadata = p_metadata p\<rparr>) = (\<lambda>ps. ps)"
    by (rule ext) (simp add: map_idI)
  have c: "sm_config s' = Some (streamConfig config)"
    by (simp add: s' setupRegistry_def configure_def rebuildPlatformConfigMap_def)
  have f: "platforms (streamConfig config)
             = filter (\<lambda>p. p_rtmpUrl p \<noteq> [] \<and> p_streamKey p \<noteq> [] \<and> trim (p_streamKey p) \<noteq> [])
                      (c_platforms (streamManager config))"
    by (simp add: streamConfig_def platformConfigs_def i)
  have v: "\<forall>p \<in> set (platforms (streamConfig config)).
             p_rtmpUrl p \<noteq> [] \<and> p_streamKey p \<noteq> [] \<and> (\<exists>c \<in> set (p_streamKey p). \<not> is_space c)"
    using t by (auto simp: f)
  show ?thesis
    using l c f v by blast
qed

theorem startup_filters_invalid_destinations_witness:
  "fst (loadConfig (setConfigPath ''/etc/c.yaml'' three_stored) 1000 (Some ''/etc/c.yaml''))
     = Inr three_loaded
   \<and> length (c_platforms (streamManager three_loaded)) = 3
   \<and> map_option (map p_id \<circ> platforms)
         (sm_config (setupRegistry three_loaded (active_StreamManager ''/live/obs'')))
       = Some [Some ''a'']"
proof -
  have l: "fst (loadConfig (setConfigPath ''/etc/c.yaml'' three_stored) 1000 (Some ''/etc/c.yaml''))
             = Inr three_loaded"
    by code_simp
  have h: "fst (startServer three_stored 1000 ''/etc/c.yaml'' (active_StreamManager ''/live/obs''))
             = Inr (setupRegistry three_loaded (active_StreamManager ''/live/obs''))"
    by (simp only: startServer_def case_prod_unfold l sum.case fst_conv)
  have n: "length (c_platforms (streamManager three_loaded)) = 3"
    by code_simp
  have e: "map p_id
             (filter (\<lambda>p. p_rtmpUrl p \<noteq> [] \<and> p_streamKey p \<noteq> [] \<and> trim (p_streamKey p) \<noteq> [])
                     (c_platforms (streamManager three_loaded))) = [Some ''a'']"
    by code_simp
  obtain config streamConfig' where
    "fst (loadConfig (setConfigPath ''/etc/c.yaml'' three_stored) 1000 (Some ''/etc/c.yaml''))
       = Inr config"
    "sm_config (setupRegistry three_loaded (active_StreamManager ''/live/obs'')) = Some streamConfig'"
    "platforms streamConfig'
       = filter (\<lambda>p. p_rtmpUrl p \<noteq> [] \<and> p_streamKey p \<noteq> [] \<and> trim (p_streamKey p) \<noteq> [])
                (c_platforms (streamManager config))"
    using startup_filters_invalid_destinations[OF h] by blast
  moreover from this(1) have "config = three_loaded"
    by (simp only: l sum.inject)
  ultimately have "map_option (map p_id \<circ> platforms)
         (sm_config (setupRegistry three_loaded (active_StreamManager ''/live/obs'')))
       = Some [Some ''a'']"
    by (simp only: e option.map comp_apply)
  with l n show ?thesis by (simp only: simp_thms)
qed
end
